theory Spec2Isabelle
  imports Complex_Main
begin

section \<open>JavaScript values as the handlers of server.js see them\<close>

text \<open>
  The four route handlers of \<^verbatim>\<open>src/schedule-backend/server.js\<close> read fields of the parsed
  JSON body, test them with \<^verbatim>\<open>===\<close>, \<^verbatim>\<open>isNaN\<close>, \<^verbatim>\<open>>=\<close> and \<^verbatim>\<open>||\<close>, and hand them to
  \<^verbatim>\<open>pool.execute\<close> as bound parameters. The values are therefore modelled dynamically.

  A Number is NaN, an infinity, or a finite double; a finite double is represented by
  the rational it denotes. Negative zero is identified with zero: \<^verbatim>\<open>isNaN\<close>, \<^verbatim>\<open>>=\<close> and
  \<^verbatim>\<open>||\<close> do not tell them apart. A string is the list of its code units, taken from the
  first 256. An object is the list of its own members, as \<^verbatim>\<open>JSON.parse\<close> builds it: no
  member is a function and the prototype is the default one.
\<close>

datatype jsnum = NaN | NegInf | Fin rat | PosInf

datatype jsval =
    JUndefined
  | JNull
  | JBool bool
  | JNum jsnum
  | JStr string
  | JArr "jsval list"
  | JObj "(string \<times> jsval) list"

subsection \<open>Rounding a mathematical value to a double\<close>

fun bit_length :: "nat \<Rightarrow> nat" where
  "bit_length n = (if n = 0 then 0 else Suc (bit_length (n div 2)))"

declare bit_length.simps [simp del]

definition pow2 :: "int \<Rightarrow> rat" where
  "pow2 i = (if 0 \<le> i then 2 ^ nat i else 1 / 2 ^ nat (- i))"

definition ilog2 :: "rat \<Rightarrow> int" where
  \<comment> \<open>\<open>\<lfloor>log\<^sub>2 a\<rfloor>\<close> for a positive rational \<open>a\<close>\<close>
  "ilog2 a =
     (let (n, d) = quotient_of a;
          e0 = int (bit_length (nat n)) - int (bit_length (nat d))
      in if pow2 e0 \<le> a then e0 else e0 - 1)"

definition round_half_even :: "rat \<Rightarrow> int" where
  "round_half_even x =
     (let f = \<lfloor>x\<rfloor>; d = x - of_int f
      in if d < 1 / 2 then f
         else if 1 / 2 < d then f + 1
         else if even f then f else f + 1)"

definition round_double :: "rat \<Rightarrow> jsnum" where
  \<comment> \<open>IEEE 754 binary64, round to nearest, ties to even; 53 significant bits,
      least normal exponent -1022, overflow to an infinity from \<open>2\<^sup>1\<^sup>0\<^sup>2\<^sup>4\<close>\<close>
  "round_double q =
     (if q = 0 then Fin 0
      else let a = \<bar>q\<bar>;
               e = max (ilog2 a) (- 1022);
               u = pow2 (e - 52);
               r = of_int (round_half_even (a / u)) * u
           in if pow2 1024 \<le> r then (if 0 < q then PosInf else NegInf)
              else Fin (if 0 < q then r else - r))"

subsection \<open>StringToNumber\<close>

text \<open>
  \<^verbatim>\<open>isNaN(x)\<close> and \<^verbatim>\<open>x >= 7\<close> convert a string operand with the language's StringToNumber:
  surrounding white space is dropped; the empty string is 0; otherwise the text must be a
  signed decimal literal (digits, fraction, exponent, or \<^verbatim>\<open>Infinity\<close>) or an unsigned
  \<^verbatim>\<open>0x\<close>, \<^verbatim>\<open>0o\<close>, \<^verbatim>\<open>0b\<close> integer literal; anything else is NaN.
\<close>

definition is_space :: "char \<Rightarrow> bool" where
  "is_space c \<longleftrightarrow> c \<in> set [CHR 0x09, CHR 0x0A, CHR 0x0B, CHR 0x0C, CHR 0x0D, CHR 0x20, CHR 0xA0]"

definition trim :: "string \<Rightarrow> string" where
  "trim s = rev (dropWhile is_space (rev (dropWhile is_space s)))"

fun digit_in :: "string \<Rightarrow> char \<Rightarrow> nat option" where
  "digit_in [] c = None"
| "digit_in (d # ds) c = (if c = d then Some 0 else map_option Suc (digit_in ds c))"

definition digit_value :: "nat \<Rightarrow> char \<Rightarrow> nat option" where
  \<comment> \<open>the value of \<open>c\<close> as a digit of the given radix, upper or lower case\<close>
  "digit_value radix c =
     (case digit_in ''0123456789abcdef'' c of
        Some v \<Rightarrow> if v < radix then Some v else None
      | None \<Rightarrow>
         (case digit_in ''0123456789ABCDEF'' c of
            Some v \<Rightarrow> if v < radix then Some v else None
          | None \<Rightarrow> None))"

fun digits_value :: "nat \<Rightarrow> nat \<Rightarrow> string \<Rightarrow> nat option" where
  \<comment> \<open>the digits read left to right onto the accumulator; None at a character that is no digit\<close>
  "digits_value radix acc [] = Some acc"
| "digits_value radix acc (c # cs) =
     (case digit_value radix c of
        None \<Rightarrow> None
      | Some v \<Rightarrow> digits_value radix (acc * radix + v) cs)"

definition is_digit :: "char \<Rightarrow> bool" where
  "is_digit c \<longleftrightarrow> digit_value 10 c \<noteq> None"

definition pow10 :: "int \<Rightarrow> rat" where
  "pow10 i = (if 0 \<le> i then 10 ^ nat i else 1 / 10 ^ nat (- i))"

definition exponent_part :: "string \<Rightarrow> int option" where
  \<comment> \<open>what follows the mantissa: nothing, or \<^verbatim>\<open>e\<close>/\<^verbatim>\<open>E\<close>, an optional sign and at least one digit\<close>
  "exponent_part s =
     (case s of
        [] \<Rightarrow> Some 0
      | c # r \<Rightarrow>
          if c = CHR ''e'' \<or> c = CHR ''E'' then
            (let (neg, ds) =
                   (case r of
                      [] \<Rightarrow> (False, [])
                    | x # xs \<Rightarrow> if x = CHR ''-'' then (True, xs)
                                else if x = CHR ''+'' then (False, xs) else (False, r))
             in if ds = [] then None
                else map_option (\<lambda>n. if neg then - int n else int n) (digits_value 10 0 ds))
          else None)"

definition unsigned_decimal :: "string \<Rightarrow> rat option" where
  \<comment> \<open>the mathematical value of \<^verbatim>\<open>digits [. [digits]] [exp]\<close> or \<^verbatim>\<open>. digits [exp]\<close>\<close>
  "unsigned_decimal s =
     (let ip = takeWhile is_digit s; r1 = dropWhile is_digit s;
          dot = (r1 \<noteq> [] \<and> hd r1 = CHR ''.'');
          r2 = (if dot then tl r1 else r1);
          fp = (if dot then takeWhile is_digit r2 else []);
          r3 = (if dot then dropWhile is_digit r2 else r2)
      in if ip = [] \<and> fp = [] then None
         else case (digits_value 10 0 (ip @ fp), exponent_part r3) of
                (Some m, Some e) \<Rightarrow> Some (of_nat m * pow10 (e - int (length fp)))
              | _ \<Rightarrow> None)"

definition radix_literal :: "string \<Rightarrow> rat option" where
  \<comment> \<open>\<^verbatim>\<open>0x\<close>, \<^verbatim>\<open>0o\<close>, \<^verbatim>\<open>0b\<close> followed by at least one digit of that radix\<close>
  "radix_literal s =
     (case s of
        z # p # ds \<Rightarrow>
          if z = CHR ''0'' \<and> ds \<noteq> [] then
            (if p = CHR ''x'' \<or> p = CHR ''X'' then map_option of_nat (digits_value 16 0 ds)
             else if p = CHR ''o'' \<or> p = CHR ''O'' then map_option of_nat (digits_value 8 0 ds)
             else if p = CHR ''b'' \<or> p = CHR ''B'' then map_option of_nat (digits_value 2 0 ds)
             else None)
          else None
      | _ \<Rightarrow> None)"

definition signed_decimal :: "string \<Rightarrow> jsnum" where
  "signed_decimal s =
     (let neg = (s \<noteq> [] \<and> hd s = CHR ''-'');
          u = (if s \<noteq> [] \<and> (hd s = CHR ''-'' \<or> hd s = CHR ''+'') then tl s else s)
      in if u = ''Infinity'' then (if neg then NegInf else PosInf)
         else case unsigned_decimal u of
                None \<Rightarrow> NaN
              | Some m \<Rightarrow> round_double (if neg then - m else m))"

definition StringToNumber :: "string \<Rightarrow> jsnum" where
  "StringToNumber s =
     (let t = trim s
      in if t = [] then Fin 0
         else case radix_literal t of
                Some m \<Rightarrow> round_double m
              | None \<Rightarrow> signed_decimal t)"

subsection \<open>The operators the handlers apply\<close>

datatype js_error = Error string | TypeError string

fun message :: "js_error \<Rightarrow> string" where
  "message (Error m) = m"
| "message (TypeError m) = m"

text \<open>
  Converting an object to a primitive calls its \<^verbatim>\<open>valueOf\<close> and \<^verbatim>\<open>toString\<close>. A value parsed
  from JSON holds no function, so an object with an own \<^verbatim>\<open>toString\<close> member has no callable
  conversion left and the conversion throws a TypeError; so does an array that holds such
  an object, since \<^verbatim>\<open>Array.prototype.join\<close> converts every element.
\<close>

fun unconvertible :: "jsval \<Rightarrow> bool" where
  "unconvertible (JObj kvs) = (map_of kvs ''toString'' \<noteq> None)"
| "unconvertible (JArr xs) = (\<exists>x \<in> set xs. unconvertible x)"
| "unconvertible v = False"

text \<open>
  The number a convertible value denotes. A plain object prints as \<^verbatim>\<open>[object Object]\<close>, an
  array as its elements joined by commas with \<^verbatim>\<open>null\<close> and \<^verbatim>\<open>undefined\<close> printed empty, and a
  number prints as a text that reads back as itself.
\<close>

fun number_of :: "jsval \<Rightarrow> jsnum" where
  "number_of JUndefined = NaN"
| "number_of JNull = Fin 0"
| "number_of (JBool b) = Fin (if b then 1 else 0)"
| "number_of (JNum n) = n"
| "number_of (JStr s) = StringToNumber s"
| "number_of (JArr []) = Fin 0"
| "number_of (JArr [x]) =
     (case x of
        JUndefined \<Rightarrow> Fin 0
      | JNull \<Rightarrow> Fin 0
      | JBool b \<Rightarrow> NaN
      | _ \<Rightarrow> number_of x)"
| "number_of (JArr (x # y # zs)) = NaN"
| "number_of (JObj kvs) = NaN"

definition ToNumber :: "jsval \<Rightarrow> js_error + jsnum" where
  "ToNumber v =
     (if unconvertible v then Inl (TypeError ''Cannot convert object to primitive value'')
      else Inr (number_of v))"

definition isNaN :: "jsval \<Rightarrow> js_error + bool" where
  "isNaN v = (case ToNumber v of Inl e \<Rightarrow> Inl e | Inr n \<Rightarrow> Inr (n = NaN))"

fun num_less :: "jsnum \<Rightarrow> jsnum \<Rightarrow> bool option" where
  \<comment> \<open>\<open>x < y\<close> on Numbers; None is the undefined result of a comparison with NaN\<close>
  "num_less NaN y = None"
| "num_less x NaN = None"
| "num_less x NegInf = Some False"
| "num_less NegInf y = Some True"
| "num_less PosInf y = Some False"
| "num_less x PosInf = Some True"
| "num_less (Fin a) (Fin b) = Some (a < b)"

definition js_ge :: "jsval \<Rightarrow> jsnum \<Rightarrow> js_error + bool" where
  \<comment> \<open>\<^verbatim>\<open>v >= n\<close> for a Number \<open>n\<close>: the left operand is converted to a Number, and the result is
      false when the comparison is undefined\<close>
  "js_ge v n =
     (case ToNumber v of
        Inl e \<Rightarrow> Inl e
      | Inr a \<Rightarrow> Inr (case num_less a n of None \<Rightarrow> False | Some b \<Rightarrow> \<not> b))"

fun ToBoolean :: "jsval \<Rightarrow> bool" where
  "ToBoolean JUndefined = False"
| "ToBoolean JNull = False"
| "ToBoolean (JBool b) = b"
| "ToBoolean (JNum n) = (n \<noteq> NaN \<and> n \<noteq> Fin 0)"
| "ToBoolean (JStr s) = (s \<noteq> [])"
| "ToBoolean (JArr xs) = True"
| "ToBoolean (JObj kvs) = True"

definition js_or :: "jsval \<Rightarrow> jsval \<Rightarrow> jsval" where
  \<comment> \<open>\<^verbatim>\<open>a || b\<close>\<close>
  "js_or a b = (if ToBoolean a then a else b)"

section \<open>The route handlers\<close>

text \<open>
  Every handler issues at most one prepared statement through \<^verbatim>\<open>pool.execute(sql, params)\<close>.
  The four statement texts of server.js are the constructors of \<open>stmt\<close>:
  \<^item> \<open>SELECT_ALL\<close>: \<^verbatim>\<open>SELECT * FROM SMP_USER_MASTER_SCHEDULES\<close>
  \<^item> \<open>INSERT_ROW\<close>: \<^verbatim>\<open>INSERT INTO SMP_USER_MASTER_SCHEDULES (SCHEDULER_TYPE, SCHEDULER_DETAILS,
     NUMBER_OF_DAYS, STATUS, VENDOR_ID, INSERT_ID) VALUES (?, ?, ?, ?, ?, ?)\<close>
  \<^item> \<open>UPDATE_DAYS\<close>: \<^verbatim>\<open>UPDATE SMP_USER_MASTER_SCHEDULES SET NUMBER_OF_DAYS = ? WHERE USER_SCHD_ID = ?\<close>
  \<^item> \<open>DELETE_ROW\<close>: \<^verbatim>\<open>DELETE FROM SMP_USER_MASTER_SCHEDULES WHERE USER_SCHD_ID = ?\<close>

  The pool and the database behind it are not part of server.js. A handler takes them as
  an \<open>executor\<close>: a function from the store's state, the statement and the bound values
  to the promise's outcome (rejected with an error, or fulfilled with the first component
  of the driver's result pair) and the store's next state. The first component is the
  array of row objects for a query and a result header for the other statements.
  Writing to the console is left out: it changes neither the response nor the store.
\<close>

datatype stmt = SELECT_ALL | INSERT_ROW | UPDATE_DAYS | DELETE_ROW

datatype exec_result =
    Rows "jsval list"
  | Header (header_insertId: nat) (header_affectedRows: nat)

type_synonym 'db executor = "'db \<Rightarrow> stmt \<Rightarrow> jsval list \<Rightarrow> (js_error + exec_result) \<times> 'db"

fun insertId :: "exec_result \<Rightarrow> jsval" where
  \<comment> \<open>\<^verbatim>\<open>result.insertId\<close>; an array of rows has no such member\<close>
  "insertId (Header i a) = JNum (Fin (of_nat i))"
| "insertId (Rows rs) = JUndefined"

fun affectedRows :: "exec_result \<Rightarrow> jsval" where
  \<comment> \<open>\<^verbatim>\<open>result.affectedRows\<close>\<close>
  "affectedRows (Header i a) = JNum (Fin (of_nat a))"
| "affectedRows (Rows rs) = JUndefined"

fun result_json :: "exec_result \<Rightarrow> jsval" where
  \<comment> \<open>the result as \<^verbatim>\<open>res.json\<close> serialises it\<close>
  "result_json (Rows rs) = JArr rs"
| "result_json (Header i a) =
     JObj [(''affectedRows'', JNum (Fin (of_nat a))), (''insertId'', JNum (Fin (of_nat i)))]"

record response =
  status :: nat
  json :: jsval

text \<open>
  A handler is an async function: it either sends a response or throws outside its
  \<^verbatim>\<open>try\<close> block, which rejects its promise without any response (\<open>Inl\<close>).
\<close>

type_synonym reply = "js_error + response"

text \<open>
  \<^verbatim>\<open>req.body\<close> is the object that \<^verbatim>\<open>express.json()\<close> parsed, given by its members.
\<close>

type_synonym body = "(string \<times> jsval) list"

definition field :: "body \<Rightarrow> string \<Rightarrow> jsval" where
  \<comment> \<open>a member of \<^verbatim>\<open>req.body\<close>, undefined when absent\<close>
  "field b k = (case map_of b k of None \<Rightarrow> JUndefined | Some v \<Rightarrow> v)"

definition get_schedules :: "'db executor \<Rightarrow> 'db \<Rightarrow> 'db \<times> reply" where
  \<comment> \<open>\<^verbatim>\<open>app.get('/api/schedules', ...)\<close>\<close>
  "get_schedules execute db =
     (case execute db SELECT_ALL [] of
        (Inr rows, db') \<Rightarrow> (db', Inr \<lparr>status = 200, json = result_json rows\<rparr>)
      | (Inl err, db') \<Rightarrow>
          (db', Inr \<lparr>status = 500, json = JObj [(''error'', JStr ''Failed to fetch schedules'')]\<rparr>))"

definition insert_params :: "body \<Rightarrow> jsval list" where
  \<comment> \<open>the array bound to the INSERT\<close>
  "insert_params b =
     (let SCHEDULER_TYPE = field b ''SCHEDULER_TYPE'';
          SCHEDULER_DETAILS = field b ''SCHEDULER_DETAILS'';
          NUMBER_OF_DAYS = field b ''NUMBER_OF_DAYS'';
          STATUS = field b ''STATUS'';
          VENDOR_ID = field b ''VENDOR_ID''
      in [SCHEDULER_TYPE, SCHEDULER_DETAILS, js_or NUMBER_OF_DAYS JNull, js_or STATUS JNull,
          VENDOR_ID, JNum (Fin 1)])"

definition post_schedule :: "'db executor \<Rightarrow> 'db \<Rightarrow> body \<Rightarrow> 'db \<times> reply" where
  \<comment> \<open>\<^verbatim>\<open>app.post('/api/schedules', ...)\<close>\<close>
  "post_schedule execute db b =
     (case execute db INSERT_ROW (insert_params b) of
        (Inr result, db') \<Rightarrow>
          (db', Inr \<lparr>status = 201,
                     json = JObj [(''message'', JStr ''Schedule added successfully!''),
                                  (''id'', insertId result)]\<rparr>)
      | (Inl err, db') \<Rightarrow>
          (db', Inr \<lparr>status = 500,
                     json = JObj [(''error'', JStr (''Error adding schedule: '' @ message err))]\<rparr>))"

definition days_invalid :: "jsval \<Rightarrow> js_error + bool" where
  \<comment> \<open>the condition of the validation \<^verbatim>\<open>if\<close>, its four disjuncts tried left to right\<close>
  "days_invalid NUMBER_OF_DAYS =
     (if NUMBER_OF_DAYS = JUndefined then Inr True
      else if NUMBER_OF_DAYS = JNull then Inr True
      else case isNaN NUMBER_OF_DAYS of
             Inl e \<Rightarrow> Inl e
           | Inr True \<Rightarrow> Inr True
           | Inr False \<Rightarrow> js_ge NUMBER_OF_DAYS (Fin 7))"

definition put_schedule :: "'db executor \<Rightarrow> 'db \<Rightarrow> string \<Rightarrow> body \<Rightarrow> 'db \<times> reply" where
  \<comment> \<open>\<^verbatim>\<open>app.put('/api/schedules/:id', ...)\<close>; \<open>ident\<close> is \<^verbatim>\<open>req.params.id\<close>, the text of the
      path segment\<close>
  "put_schedule execute db ident b =
     (let NUMBER_OF_DAYS = field b ''NUMBER_OF_DAYS''
      in case days_invalid NUMBER_OF_DAYS of
           Inl e \<Rightarrow> (db, Inl e)
         | Inr True \<Rightarrow>
             (db, Inr \<lparr>status = 400,
                       json = JObj [(''error'',
                                JStr ''Number of Days must be a valid number and less than 7.'')]\<rparr>)
         | Inr False \<Rightarrow>
            (case execute db UPDATE_DAYS [NUMBER_OF_DAYS, JStr ident] of
               (Inr result, db') \<Rightarrow>
                 if affectedRows result = JNum (Fin 0)
                 then (db', Inr \<lparr>status = 404, json = JObj [(''error'', JStr ''Schedule not found'')]\<rparr>)
                 else (db', Inr \<lparr>status = 200,
                                  json = JObj [(''message'', JStr ''Schedule updated successfully!'')]\<rparr>)
             | (Inl err, db') \<Rightarrow>
                 (db', Inr \<lparr>status = 500,
                            json = JObj [(''error'',
                                     js_or (JStr (''Error updating schedule: '' @ message err))
                                           (JStr ''Unknown database error''))]\<rparr>)))"

definition delete_schedule :: "'db executor \<Rightarrow> 'db \<Rightarrow> string \<Rightarrow> 'db \<times> reply" where
  \<comment> \<open>\<^verbatim>\<open>app.delete('/api/schedules/:id', ...)\<close>\<close>
  "delete_schedule execute db ident =
     (case execute db DELETE_ROW [JStr ident] of
        (Inr result, db') \<Rightarrow>
          if affectedRows result = JNum (Fin 0)
          then (db', Inr \<lparr>status = 404, json = JObj [(''error'', JStr ''Schedule not found'')]\<rparr>)
          else (db', Inr \<lparr>status = 200,
                           json = JObj [(''message'', JStr ''Schedule deleted successfully!'')]\<rparr>)
      | (Inl err, db') \<Rightarrow>
          (db', Inr \<lparr>status = 500,
                     json = JObj [(''error'', JStr (''Error deleting schedule: '' @ message err))]\<rparr>))"

text \<open>
  To observe which statements a handler issues, an executor can be wrapped so that it
  records every call next to the store's state.
\<close>

definition traced :: "'db executor \<Rightarrow> ('db \<times> (stmt \<times> jsval list) list) executor" where
  "traced execute = (\<lambda>(db, trail) sql ps.
     case execute db sql ps of (r, db') \<Rightarrow> (r, (db', trail @ [(sql, ps)])))"

section \<open>The table behind the pool\<close>

text \<open>
  Modelled from the spec: the MySQL table \<^verbatim>\<open>SMP_USER_MASTER_SCHEDULES\<close> and the driver
  behind \<^verbatim>\<open>pool.execute\<close> are not in the repository. The specification describes one
  table whose rows carry a store-assigned, unique, immutable integer identifier (the
  primary key \<^verbatim>\<open>USER_SCHD_ID\<close>) and the six inserted columns, listed in storage order;
  a row is created by the insert, changed only in its number of days, and removed by
  identifier. Any statement may fail with a storage error.

  What the specification leaves open is a parameter \<open>schema\<close>: which statements the store
  or the driver refuses and with which message, depending on the moment (an unreachable
  server), the rows (a constraint), the statement and the bound values; and which key a
  bound value denotes in \<^verbatim>\<open>WHERE USER_SCHD_ID = ?\<close>. A refused statement changes nothing.
  The header of an UPDATE counts the rows found, as the driver does by default. Bound
  values are kept as they are bound: the conversion to a column's type is not modelled.
\<close>

record row =
  USER_SCHD_ID :: nat
  SCHEDULER_TYPE :: jsval
  SCHEDULER_DETAILS :: jsval
  NUMBER_OF_DAYS :: jsval
  STATUS :: jsval
  VENDOR_ID :: jsval
  INSERT_ID :: jsval

record schema =
  refuses :: "nat \<Rightarrow> row list \<Rightarrow> stmt \<Rightarrow> jsval list \<Rightarrow> string option"
  key_of :: "jsval \<Rightarrow> nat option"

record db =
  rows :: "row list"
  next_id :: nat

definition row_object :: "row \<Rightarrow> jsval" where
  \<comment> \<open>a row as the driver hands it to the handler\<close>
  "row_object r =
     JObj [(''USER_SCHD_ID'', JNum (Fin (of_nat (USER_SCHD_ID r)))),
           (''SCHEDULER_TYPE'', SCHEDULER_TYPE r),
           (''SCHEDULER_DETAILS'', SCHEDULER_DETAILS r),
           (''NUMBER_OF_DAYS'', NUMBER_OF_DAYS r),
           (''STATUS'', STATUS r),
           (''VENDOR_ID'', VENDOR_ID r),
           (''INSERT_ID'', INSERT_ID r)]"

definition hit :: "schema \<Rightarrow> jsval \<Rightarrow> row \<Rightarrow> bool" where
  \<comment> \<open>the row satisfies \<^verbatim>\<open>USER_SCHD_ID = ?\<close> for the bound value \<open>k\<close>\<close>
  "hit sch k r \<longleftrightarrow> key_of sch k = Some (USER_SCHD_ID r)"

fun run_stmt :: "schema \<Rightarrow> db \<Rightarrow> stmt \<Rightarrow> jsval list \<Rightarrow> (js_error + exec_result) \<times> db" where
  \<comment> \<open>Modelled from the spec: the effect on the table of each statement that the store
      accepts; the database that runs them is not in the repository\<close>
  "run_stmt sch d SELECT_ALL [] = (Inr (Rows (map row_object (rows d))), d)"
| "run_stmt sch d INSERT_ROW [t, dt, n, s, v, i] =
     (Inr (Header (next_id d) 1),
      d\<lparr>rows := rows d @
             [\<lparr>USER_SCHD_ID = next_id d, SCHEDULER_TYPE = t, SCHEDULER_DETAILS = dt,
               NUMBER_OF_DAYS = n, STATUS = s, VENDOR_ID = v, INSERT_ID = i\<rparr>],
        next_id := Suc (next_id d)\<rparr>)"
| "run_stmt sch d UPDATE_DAYS [n, k] =
     (Inr (Header 0 (length (filter (hit sch k) (rows d)))),
      d\<lparr>rows := map (\<lambda>r. if hit sch k r then r\<lparr>NUMBER_OF_DAYS := n\<rparr> else r) (rows d)\<rparr>)"
| "run_stmt sch d DELETE_ROW [k] =
     (Inr (Header 0 (length (filter (hit sch k) (rows d)))),
      d\<lparr>rows := filter (\<lambda>r. \<not> hit sch k r) (rows d)\<rparr>)"
| "run_stmt sch d sql ps = (Inl (Error ''Incorrect arguments to mysqld_stmt_execute''), d)"

definition table_execute :: "schema \<Rightarrow> nat \<Rightarrow> db executor" where
  \<comment> \<open>Modelled from the spec: \<^verbatim>\<open>pool.execute\<close> on the table at the moment \<open>n\<close>; the pool and
      the database are not in the repository\<close>
  "table_execute sch n d sql ps =
     (case refuses sch n (rows d) sql ps of
        Some m \<Rightarrow> (Inl (Error m), d)
      | None \<Rightarrow> run_stmt sch d sql ps)"

subsection \<open>Serving requests one after another\<close>

text \<open>
  The routes of the application. Each handler issues a single statement, so requests
  served concurrently act on the store in the order of their statements; a run is a
  list of requests in that order, the request at position \<open>i\<close> of a run that starts at the
  moment \<open>n\<close> being served at the moment \<open>n + i\<close>.
\<close>

datatype request = GET | POST body | PUT string body | DELETE string

fun serve :: "'db executor \<Rightarrow> 'db \<Rightarrow> request \<Rightarrow> 'db \<times> reply" where
  "serve execute d GET = get_schedules execute d"
| "serve execute d (POST b) = post_schedule execute d b"
| "serve execute d (PUT ident b) = put_schedule execute d ident b"
| "serve execute d (DELETE ident) = delete_schedule execute d ident"

fun serve_all :: "(nat \<Rightarrow> 'db executor) \<Rightarrow> nat \<Rightarrow> 'db \<Rightarrow> request list \<Rightarrow> 'db \<times> reply list" where
  "serve_all execute n d [] = (d, [])"
| "serve_all execute n d (q # qs) =
     (case serve (execute n) d q of
        (d', r) \<Rightarrow> (case serve_all execute (Suc n) d' qs of (d'', rs) \<Rightarrow> (d'', r # rs)))"

subsection \<open>A concrete store\<close>

text \<open>
  One schema and one state of the table, used to run the handlers on concrete requests.
  The schema refuses a statement exactly when a bound value is \<^verbatim>\<open>undefined\<close> (the driver's
  own check) and reads a key from plain decimal text. The state holds the record of the
  specification's example: type \<^verbatim>\<open>daily\<close>, details \<^verbatim>\<open>d\<close>, 3 days, status \<^verbatim>\<open>active\<close>,
  vendor \<^verbatim>\<open>V1\<close>.
\<close>

definition digits_key :: "jsval \<Rightarrow> nat option" where
  "digits_key v = (case v of JStr s \<Rightarrow> if s = [] then None else digits_value 10 0 s | _ \<Rightarrow> None)"

definition undefined_refused :: "nat \<Rightarrow> row list \<Rightarrow> stmt \<Rightarrow> jsval list \<Rightarrow> string option" where
  "undefined_refused n rs sql ps =
     (if JUndefined \<in> set ps
      then Some ''Bind parameters must not contain undefined. To pass SQL NULL specify JS null''
      else None)"

definition plain_schema :: schema where
  "plain_schema = \<lparr>refuses = undefined_refused, key_of = digits_key\<rparr>"

definition sample_row :: row where
  "sample_row =
     \<lparr>USER_SCHD_ID = 1, SCHEDULER_TYPE = JStr ''daily'', SCHEDULER_DETAILS = JStr ''d'',
      NUMBER_OF_DAYS = JNum (Fin 3), STATUS = JStr ''active'', VENDOR_ID = JStr ''V1'',
      INSERT_ID = JNum (Fin 1)\<rparr>"

definition sample_db :: db where
  "sample_db = \<lparr>rows = [sample_row], next_id = 2\<rparr>"

definition base_body :: body where
  \<comment> \<open>a create request that leaves out the number of days and the status\<close>
  "base_body =
     [(''SCHEDULER_TYPE'', JStr ''daily''), (''SCHEDULER_DETAILS'', JStr ''d''),
      (''VENDOR_ID'', JStr ''V1'')]"

definition required_position :: "string \<Rightarrow> nat option" where
  \<comment> \<open>where the INSERT binds each field that the create request must carry\<close>
  "required_position k =
     (if k = ''SCHEDULER_TYPE'' then Some 0
      else if k = ''SCHEDULER_DETAILS'' then Some 1
      else if k = ''VENDOR_ID'' then Some 4
      else None)"

subsection \<open>What a client has been told\<close>

text \<open>
  The records a client knows to exist, from the requests it sent and the replies it got:
  a create answered 201 adds the record made of the identifier in the reply and the
  fields of the request (an absent or falsy number of days or status as null, the
  insertion marker 1); a delete answered 200 removes the records with that identifier;
  every other exchange leaves them as they are.
\<close>

fun member :: "jsval \<Rightarrow> string \<Rightarrow> jsval" where
  "member (JObj kvs) k = field kvs k"
| "member v k = JUndefined"

fun nat_of :: "jsval \<Rightarrow> nat" where
  "nat_of (JNum (Fin q)) = nat \<lfloor>q\<rfloor>"
| "nat_of v = 0"

definition created_record :: "response \<Rightarrow> body \<Rightarrow> row" where
  "created_record r b =
     \<lparr>USER_SCHD_ID = nat_of (member (json r) ''id''),
      SCHEDULER_TYPE = field b ''SCHEDULER_TYPE'',
      SCHEDULER_DETAILS = field b ''SCHEDULER_DETAILS'',
      NUMBER_OF_DAYS = (if ToBoolean (field b ''NUMBER_OF_DAYS'') then field b ''NUMBER_OF_DAYS'' else JNull),
      STATUS = (if ToBoolean (field b ''STATUS'') then field b ''STATUS'' else JNull),
      VENDOR_ID = field b ''VENDOR_ID'',
      INSERT_ID = JNum (Fin 1)\<rparr>"

fun created_not_deleted :: "schema \<Rightarrow> row list \<Rightarrow> (request \<times> reply) list \<Rightarrow> row list" where
  "created_not_deleted sch rs [] = rs"
| "created_not_deleted sch rs ((POST b, Inr r) # h) =
     created_not_deleted sch (if status r = 201 then rs @ [created_record r b] else rs) h"
| "created_not_deleted sch rs ((DELETE ident, Inr r) # h) =
     created_not_deleted sch
       (if status r = 200 then filter (\<lambda>x. \<not> hit sch (JStr ident) x) rs else rs) h"
| "created_not_deleted sch rs (x # h) = created_not_deleted sch rs h"

fun create_or_delete :: "request \<Rightarrow> bool" where
  "create_or_delete (POST b) = True"
| "create_or_delete (DELETE ident) = True"
| "create_or_delete q = False"

definition assigned :: "db \<Rightarrow> bool" where
  \<comment> \<open>every stored identifier was handed out by the store's counter, once\<close>
  "assigned d \<longleftrightarrow>
     distinct (map USER_SCHD_ID (rows d)) \<and> (\<forall>r \<in> set (rows d). USER_SCHD_ID r < next_id d)"

definition retired :: "schema \<Rightarrow> jsval \<Rightarrow> db \<Rightarrow> bool" where
  \<comment> \<open>no row has the key that \<open>k\<close> denotes, and the counter is past it\<close>
  "retired sch k d \<longleftrightarrow>
     (\<forall>r \<in> set (rows d). \<not> hit sch k r) \<and> (\<forall>n. key_of sch k = Some n \<longrightarrow> n < next_id d)"

section \<open>Properties of the numeric coercion\<close>

lemmas concrete_defs = field_def traced_def table_execute_def plain_schema_def
  undefined_refused_def sample_db_def sample_row_def hit_def Let_def

lemma StringToNumber_empty: "StringToNumber [] = Fin 0"
  by (simp add: StringToNumber_def trim_def)

lemma bit_length_1: "bit_length (Suc 0) = 1"
  by (simp add: bit_length.simps)

lemma bit_length_5: "bit_length 5 = 3"
  by (simp add: bit_length.simps)

lemma round_double_5: "round_double 5 = Fin 5"
  by (simp add: round_double_def ilog2_def pow2_def round_half_even_def bit_length_1 bit_length_5
      Let_def)

lemma StringToNumber_5: "StringToNumber ''5'' = Fin 5"
  by (simp add: StringToNumber_def trim_def is_space_def radix_literal_def signed_decimal_def
      unsigned_decimal_def is_digit_def digit_value_def exponent_part_def pow10_def
      round_double_5 Let_def)

lemma ToNumber_primitive [simp]:
  "ToNumber JUndefined = Inr NaN"
  "ToNumber JNull = Inr (Fin 0)"
  "ToNumber (JBool b) = Inr (Fin (if b then 1 else 0))"
  "ToNumber (JNum n) = Inr n"
  "ToNumber (JStr s) = Inr (StringToNumber s)"
  by (simp_all add: ToNumber_def)

lemma digits_key_1: "digits_key (JStr ''1'') = Some 1"
  by (simp add: digits_key_def digit_value_def)

lemma days_invalid_reject:
  assumes "v = JUndefined \<or> v = JNull \<or> ToNumber v = Inr NaN \<or> ToNumber v = Inr PosInf
           \<or> (\<exists>q. 7 \<le> q \<and> ToNumber v = Inr (Fin q))"
  shows "days_invalid v = Inr True"
  using assms by (auto simp: days_invalid_def isNaN_def js_ge_def)

lemma days_invalid_accept:
  assumes "v \<noteq> JNull"
    and "ToNumber v = Inr NegInf \<or> (\<exists>q. q < 7 \<and> ToNumber v = Inr (Fin q))"
  shows "days_invalid v = Inr False"
  using assms by (auto simp: days_invalid_def isNaN_def js_ge_def)

lemma days_invalid_throws:
  assumes "unconvertible v"
  shows "days_invalid v = Inl (TypeError ''Cannot convert object to primitive value'')"
  using assms by (cases v) (auto simp: days_invalid_def isNaN_def js_ge_def ToNumber_def)

text \<open>
  The validation runs before the \<^verbatim>\<open>try\<close> block: when the coercion throws, the update
  handler sends no response at all, and the store is not touched.
\<close>

lemma put_schedule_throws:
  fixes execute :: "'db executor"
  assumes "unconvertible (field b ''NUMBER_OF_DAYS'')"
  shows "put_schedule execute d ident b =
     (d, Inl (TypeError ''Cannot convert object to primitive value''))"
  using days_invalid_throws [OF assms] by (simp add: put_schedule_def)

section \<open>Updating: the validation of the number of days\<close>

lemma put_traced:
  fixes execute :: "'db executor"
  shows "put_schedule (traced execute) (d, trail) ident b =
     (case put_schedule execute d ident b of
        (d', r) \<Rightarrow> ((d', if days_invalid (field b ''NUMBER_OF_DAYS'') = Inr False
                           then trail @ [(UPDATE_DAYS, [field b ''NUMBER_OF_DAYS'', JStr ident])]
                           else trail), r))"
  by (auto simp: put_schedule_def traced_def Let_def split: sum.splits bool.splits prod.splits)

text \<open>
  Claim C1, as amended. An update whose \<^verbatim>\<open>NUMBER_OF_DAYS\<close> is undefined (absent) or null, or
  whose numeric coercion is NaN, is \<open>+\<infinity>\<close>, or is a number of at least 7, is answered with
  status 400 and the message of the violated rule; the store is returned as it was, and
  under a recording executor the list of issued statements is returned as it was: no
  statement is issued. This holds for every executor, whatever it would have done.
\<close>

theorem update_rejects_unusable_days:
  fixes execute :: "'db executor"
  assumes "field b ''NUMBER_OF_DAYS'' = v"
    and "v = JUndefined \<or> v = JNull \<or> ToNumber v = Inr NaN \<or> ToNumber v = Inr PosInf
         \<or> (\<exists>q. 7 \<le> q \<and> ToNumber v = Inr (Fin q))"
  shows "put_schedule execute d ident b =
           (d, Inr \<lparr>status = 400,
                     json = JObj [(''error'',
                              JStr ''Number of Days must be a valid number and less than 7.'')]\<rparr>)
         \<and> put_schedule (traced execute) (d, trail) ident b =
           ((d, trail), Inr \<lparr>status = 400,
                     json = JObj [(''error'',
                              JStr ''Number of Days must be a valid number and less than 7.'')]\<rparr>)"
proof -
  have "days_invalid (field b ''NUMBER_OF_DAYS'') = Inr True"
    using assms days_invalid_reject by blast
  then show ?thesis
    by (simp add: put_schedule_def)
qed

text \<open>The rule at work on the stored example: an update to 7 days is refused.\<close>

theorem update_rejects_unusable_days_witness:
  "field [(''NUMBER_OF_DAYS'', JNum (Fin 7))] ''NUMBER_OF_DAYS'' = JNum (Fin 7)
   \<and> ToNumber (JNum (Fin 7)) = Inr (Fin 7)
   \<and> put_schedule (table_execute plain_schema 0) sample_db ''1'' [(''NUMBER_OF_DAYS'', JNum (Fin 7))] =
       (sample_db, Inr \<lparr>status = 400,
                     json = JObj [(''error'',
                              JStr ''Number of Days must be a valid number and less than 7.'')]\<rparr>)
   \<and> put_schedule (traced (table_execute plain_schema 0)) (sample_db, []) ''1''
         [(''NUMBER_OF_DAYS'', JNum (Fin 7))] =
       ((sample_db, []), Inr \<lparr>status = 400,
                     json = JObj [(''error'',
                              JStr ''Number of Days must be a valid number and less than 7.'')]\<rparr>)"
  using update_rejects_unusable_days [of "[(''NUMBER_OF_DAYS'', JNum (Fin 7))]" "JNum (Fin 7)"
      "table_execute plain_schema 0" sample_db "''1''" "[]"]
  by (simp add: field_def)

text \<open>
  Claim C1 as it is written does not hold: \<^verbatim>\<open>true\<close> is not a number, yet an update of
  record 1 with \<^verbatim>\<open>{"NUMBER_OF_DAYS": true}\<close> passes the validation (\<^verbatim>\<open>isNaN(true)\<close> is false
  and \<^verbatim>\<open>true >= 7\<close> is false), the UPDATE is issued with the boolean bound, the row is
  changed and the answer is 200.
\<close>

theorem update_accepts_boolean_counterexample:
  "put_schedule (traced (table_execute plain_schema 0)) (sample_db, []) ''1''
       [(''NUMBER_OF_DAYS'', JBool True)] =
     ((sample_db\<lparr>rows := [sample_row\<lparr>NUMBER_OF_DAYS := JBool True\<rparr>]\<rparr>,
       [(UPDATE_DAYS, [JBool True, JStr ''1''])]),
      Inr \<lparr>status = 200, json = JObj [(''message'', JStr ''Schedule updated successfully!'')]\<rparr>)"
  by (simp add: put_schedule_def days_invalid_def isNaN_def js_ge_def concrete_defs digits_key_1)

text \<open>
  Claim C9, as amended. An update passes the validation, and its value is bound unchanged
  to the UPDATE that is issued, when \<^verbatim>\<open>NUMBER_OF_DAYS\<close> is the empty string, the string
  \<^verbatim>\<open>5\<close>, a boolean, zero or a negative number, and in general when it is any value other
  than null whose numeric coercion is \<open>-\<infinity>\<close> or a number below 7.
\<close>

theorem update_accepts_coercible_days:
  fixes execute :: "'db executor"
  assumes "field b ''NUMBER_OF_DAYS'' = v"
    and "v \<in> {JStr [], JStr ''5'', JBool True, JBool False, JNum (Fin 0)}
         \<or> (\<exists>q. q < 0 \<and> v = JNum (Fin q))
         \<or> (v \<noteq> JNull \<and> (ToNumber v = Inr NegInf \<or> (\<exists>q. q < 7 \<and> ToNumber v = Inr (Fin q))))"
  shows "days_invalid v = Inr False
         \<and> put_schedule execute d ident b \<noteq>
           (d, Inr \<lparr>status = 400,
                     json = JObj [(''error'',
                              JStr ''Number of Days must be a valid number and less than 7.'')]\<rparr>)
         \<and> snd (fst (put_schedule (traced execute) (d, trail) ident b)) =
             trail @ [(UPDATE_DAYS, [v, JStr ident])]"
proof -
  have ok: "days_invalid v = Inr False"
    using assms(2)
    by (auto intro!: days_invalid_accept simp: StringToNumber_empty StringToNumber_5)
  have "snd (fst (put_schedule (traced execute) (d, trail) ident b)) =
             trail @ [(UPDATE_DAYS, [v, JStr ident])]"
    using ok assms(1) by (simp add: put_traced split: prod.splits)
  moreover have "put_schedule execute d ident b \<noteq>
           (d, Inr \<lparr>status = 400,
                     json = JObj [(''error'',
                              JStr ''Number of Days must be a valid number and less than 7.'')]\<rparr>)"
    using ok assms(1)
    by (auto simp: put_schedule_def js_or_def split: sum.splits prod.splits)
  ultimately show ?thesis using ok by simp
qed

text \<open>The string \<^verbatim>\<open>5\<close> sent for the stored example: the text itself reaches the store.\<close>

theorem update_accepts_coercible_days_witness:
  "field [(''NUMBER_OF_DAYS'', JStr ''5'')] ''NUMBER_OF_DAYS'' = JStr ''5''
   \<and> days_invalid (JStr ''5'') = Inr False
   \<and> put_schedule (table_execute plain_schema 0) sample_db ''1'' [(''NUMBER_OF_DAYS'', JStr ''5'')] \<noteq>
       (sample_db, Inr \<lparr>status = 400,
                     json = JObj [(''error'',
                              JStr ''Number of Days must be a valid number and less than 7.'')]\<rparr>)
   \<and> snd (fst (put_schedule (traced (table_execute plain_schema 0)) (sample_db, []) ''1''
                  [(''NUMBER_OF_DAYS'', JStr ''5'')])) =
       [(UPDATE_DAYS, [JStr ''5'', JStr ''1''])]"
  using update_accepts_coercible_days [of "[(''NUMBER_OF_DAYS'', JStr ''5'')]" "JStr ''5''"
      "table_execute plain_schema 0" sample_db "''1''" "[]"]
  by (simp add: field_def)

text \<open>
  Claim C9 as it is written does not hold in its general form: the numeric coercion of
  \<^verbatim>\<open>null\<close> is 0, which is defined and below 7, yet an update with
  \<^verbatim>\<open>{"NUMBER_OF_DAYS": null}\<close> is answered 400 and nothing is sent to the store.
\<close>

theorem update_rejects_null_counterexample:
  "ToNumber JNull = Inr (Fin 0) \<and> (0::rat) < 7
   \<and> put_schedule (traced (table_execute plain_schema 0)) (sample_db, []) ''1''
         [(''NUMBER_OF_DAYS'', JNull)] =
       ((sample_db, []), Inr \<lparr>status = 400,
                     json = JObj [(''error'',
                              JStr ''Number of Days must be a valid number and less than 7.'')]\<rparr>)"
  by (simp add: put_schedule_def days_invalid_def field_def)

section \<open>Creating\<close>

lemma insert_params_eq:
  "insert_params b =
     [field b ''SCHEDULER_TYPE'', field b ''SCHEDULER_DETAILS'',
      js_or (field b ''NUMBER_OF_DAYS'') JNull, js_or (field b ''STATUS'') JNull,
      field b ''VENDOR_ID'', JNum (Fin 1)]"
  by (simp add: insert_params_def Let_def)

lemma post_traced:
  fixes execute :: "'db executor"
  shows "post_schedule (traced execute) (d, trail) b =
     (case post_schedule execute d b of
        (d', r) \<Rightarrow> ((d', trail @ [(INSERT_ROW, insert_params b)]), r))"
  by (auto simp: post_schedule_def traced_def split: sum.splits prod.splits)

lemma post_status:
  fixes execute :: "'db executor"
  shows "\<exists>r. snd (post_schedule execute d b) = Inr r \<and> (status r = 201 \<or> status r = 500)"
  by (auto simp: post_schedule_def split: sum.splits prod.splits)

lemma post_fulfilled:
  fixes execute :: "'db executor"
  assumes "execute d INSERT_ROW (insert_params b) = (Inr (Header i a), d')"
  shows "post_schedule execute d b =
     (d', Inr \<lparr>status = 201,
               json = JObj [(''message'', JStr ''Schedule added successfully!''),
                            (''id'', JNum (Fin (of_nat i)))]\<rparr>)"
  using assms by (simp add: post_schedule_def)

lemma post_rejected:
  fixes execute :: "'db executor"
  assumes "execute d INSERT_ROW (insert_params b) = (Inl err, d')"
  shows "post_schedule execute d b =
     (d', Inr \<lparr>status = 500,
               json = JObj [(''error'', JStr (''Error adding schedule: '' @ message err))]\<rparr>)"
  using assms by (simp add: post_schedule_def)

lemma table_insert:
  assumes "refuses sch n (rows d) INSERT_ROW (insert_params b) = None"
  shows "table_execute sch n d INSERT_ROW (insert_params b) =
     (Inr (Header (next_id d) 1),
      d\<lparr>rows := rows d @
             [\<lparr>USER_SCHD_ID = next_id d, SCHEDULER_TYPE = field b ''SCHEDULER_TYPE'',
               SCHEDULER_DETAILS = field b ''SCHEDULER_DETAILS'',
               NUMBER_OF_DAYS = js_or (field b ''NUMBER_OF_DAYS'') JNull,
               STATUS = js_or (field b ''STATUS'') JNull,
               VENDOR_ID = field b ''VENDOR_ID'', INSERT_ID = JNum (Fin 1)\<rparr>],
        next_id := Suc (next_id d)\<rparr>)"
  using assms by (simp add: table_execute_def insert_params_eq)

lemma post_table:
  assumes "refuses sch n (rows t) INSERT_ROW (insert_params b) = None"
  shows "post_schedule (table_execute sch n) t b =
            (t\<lparr>rows := rows t @
                  [\<lparr>USER_SCHD_ID = next_id t, SCHEDULER_TYPE = field b ''SCHEDULER_TYPE'',
                    SCHEDULER_DETAILS = field b ''SCHEDULER_DETAILS'',
                    NUMBER_OF_DAYS = js_or (field b ''NUMBER_OF_DAYS'') JNull,
                    STATUS = js_or (field b ''STATUS'') JNull,
                    VENDOR_ID = field b ''VENDOR_ID'', INSERT_ID = JNum (Fin 1)\<rparr>],
               next_id := Suc (next_id t)\<rparr>,
             Inr \<lparr>status = 201,
                   json = JObj [(''message'', JStr ''Schedule added successfully!''),
                                (''id'', JNum (Fin (of_nat (next_id t))))]\<rparr>)"
  by (simp add: post_schedule_def table_insert [OF assms])

lemma plain_accepts_base [simp]:
  "refuses plain_schema n rs INSERT_ROW (insert_params base_body) = None"
  by (simp add: plain_schema_def undefined_refused_def insert_params_eq field_def base_body_def
      js_or_def)

lemma plain_accepts_days [simp]:
  "refuses plain_schema n rs INSERT_ROW (insert_params ((''NUMBER_OF_DAYS'', v) # base_body)) = None"
  by (cases v)
    (simp_all add: plain_schema_def undefined_refused_def insert_params_eq field_def base_body_def
      js_or_def)

text \<open>
  Claim C2. Whatever the create request holds, the handler issues the INSERT. The value
  bound last is the marker 1, and an absent \<^verbatim>\<open>NUMBER_OF_DAYS\<close> or \<^verbatim>\<open>STATUS\<close> is bound as null.
  When the statement is fulfilled with a header, the answer is 201 with the message and
  the header's insert identifier. On the table: unless the store refuses the statement,
  the row appended carries the counter's value as identifier, null in the absent
  fields and the marker 1, and the answer carries that identifier.
\<close>

theorem create_binds_null_and_marker:
  fixes execute :: "'db executor"
  shows "insert_params b ! 5 = JNum (Fin 1)
    \<and> (field b ''NUMBER_OF_DAYS'' = JUndefined \<longrightarrow> insert_params b ! 2 = JNull)
    \<and> (field b ''STATUS'' = JUndefined \<longrightarrow> insert_params b ! 3 = JNull)
    \<and> snd (fst (post_schedule (traced execute) (d, trail) b)) =
        trail @ [(INSERT_ROW, insert_params b)]
    \<and> (\<forall>i a d'. execute d INSERT_ROW (insert_params b) = (Inr (Header i a), d') \<longrightarrow>
          post_schedule execute d b =
            (d', Inr \<lparr>status = 201,
                      json = JObj [(''message'', JStr ''Schedule added successfully!''),
                                   (''id'', JNum (Fin (of_nat i)))]\<rparr>))
    \<and> (refuses sch n (rows t) INSERT_ROW (insert_params b) = None \<longrightarrow>
          post_schedule (table_execute sch n) t b =
            (t\<lparr>rows := rows t @
                  [\<lparr>USER_SCHD_ID = next_id t, SCHEDULER_TYPE = field b ''SCHEDULER_TYPE'',
                    SCHEDULER_DETAILS = field b ''SCHEDULER_DETAILS'',
                    NUMBER_OF_DAYS = js_or (field b ''NUMBER_OF_DAYS'') JNull,
                    STATUS = js_or (field b ''STATUS'') JNull,
                    VENDOR_ID = field b ''VENDOR_ID'', INSERT_ID = JNum (Fin 1)\<rparr>],
               next_id := Suc (next_id t)\<rparr>,
             Inr \<lparr>status = 201,
                   json = JObj [(''message'', JStr ''Schedule added successfully!''),
                                (''id'', JNum (Fin (of_nat (next_id t))))]\<rparr>))"
proof -
  have "snd (fst (post_schedule (traced execute) (d, trail) b)) =
        trail @ [(INSERT_ROW, insert_params b)]"
    by (simp add: post_traced split: prod.splits)
  moreover have "refuses sch n (rows t) INSERT_ROW (insert_params b) = None \<longrightarrow>
          post_schedule (table_execute sch n) t b =
            (t\<lparr>rows := rows t @
                  [\<lparr>USER_SCHD_ID = next_id t, SCHEDULER_TYPE = field b ''SCHEDULER_TYPE'',
                    SCHEDULER_DETAILS = field b ''SCHEDULER_DETAILS'',
                    NUMBER_OF_DAYS = js_or (field b ''NUMBER_OF_DAYS'') JNull,
                    STATUS = js_or (field b ''STATUS'') JNull,
                    VENDOR_ID = field b ''VENDOR_ID'', INSERT_ID = JNum (Fin 1)\<rparr>],
               next_id := Suc (next_id t)\<rparr>,
             Inr \<lparr>status = 201,
                   json = JObj [(''message'', JStr ''Schedule added successfully!''),
                                (''id'', JNum (Fin (of_nat (next_id t))))]\<rparr>)"
    using post_table by blast
  ultimately show ?thesis
    by (simp add: insert_params_eq js_or_def post_fulfilled)
qed


text \<open>A create without days and status, on the stored example: record 2 is added.\<close>

theorem create_binds_null_and_marker_witness:
  "field base_body ''NUMBER_OF_DAYS'' = JUndefined \<and> field base_body ''STATUS'' = JUndefined
   \<and> insert_params base_body ! 2 = JNull \<and> insert_params base_body ! 3 = JNull
   \<and> refuses plain_schema 0 (rows sample_db) INSERT_ROW (insert_params base_body) = None
   \<and> post_schedule (table_execute plain_schema 0) sample_db base_body =
       (\<lparr>rows = [sample_row,
                 \<lparr>USER_SCHD_ID = 2, SCHEDULER_TYPE = JStr ''daily'', SCHEDULER_DETAILS = JStr ''d'',
                   NUMBER_OF_DAYS = JNull, STATUS = JNull, VENDOR_ID = JStr ''V1'',
                   INSERT_ID = JNum (Fin 1)\<rparr>],
          next_id = 3\<rparr>,
        Inr \<lparr>status = 201,
              json = JObj [(''message'', JStr ''Schedule added successfully!''),
                           (''id'', JNum (Fin 2))]\<rparr>)"
proof -
  have absent: "field base_body ''NUMBER_OF_DAYS'' = JUndefined"
    "field base_body ''STATUS'' = JUndefined"
    by (simp_all add: field_def base_body_def)
  have present: "field base_body ''SCHEDULER_TYPE'' = JStr ''daily''"
    "field base_body ''SCHEDULER_DETAILS'' = JStr ''d''"
    "field base_body ''VENDOR_ID'' = JStr ''V1''"
    by (simp_all add: field_def base_body_def)
  show ?thesis
    using create_binds_null_and_marker [where b = base_body and execute = "table_execute plain_schema 0"
        and d = sample_db and trail = "[]" and sch = plain_schema and t = sample_db and n = 0]
    by (simp add: absent present js_or_def sample_db_def)
qed

section \<open>Creating: what is not checked\<close>

text \<open>
  Claim C4. For every create request the INSERT is issued and the answer is 201 or 500,
  never a validation error. The vendor identifier is bound as it came. A number of days
  of 7 or more is bound as it came and, unless the store refuses the statement, is
  stored in the new row and acknowledged with 201; the same body sent as an update is
  answered 400.
\<close>

theorem create_does_not_validate:
  fixes execute :: "'db executor"
  shows "snd (fst (post_schedule (traced execute) (d, trail) b)) =
           trail @ [(INSERT_ROW, insert_params b)]
    \<and> (\<exists>r. snd (post_schedule execute d b) = Inr r \<and> (status r = 201 \<or> status r = 500))
    \<and> insert_params b ! 4 = field b ''VENDOR_ID''
    \<and> (\<forall>q. 7 \<le> q \<and> field b ''NUMBER_OF_DAYS'' = JNum (Fin q) \<longrightarrow>
          insert_params b ! 2 = JNum (Fin q)
          \<and> (refuses sch n (rows t) INSERT_ROW (insert_params b) = None \<longrightarrow>
               snd (post_schedule (table_execute sch n) t b) =
                 Inr \<lparr>status = 201,
                       json = JObj [(''message'', JStr ''Schedule added successfully!''),
                                    (''id'', JNum (Fin (of_nat (next_id t))))]\<rparr>
               \<and> NUMBER_OF_DAYS (last (rows (fst (post_schedule (table_execute sch n) t b)))) =
                   JNum (Fin q))
          \<and> put_schedule execute d ident b =
               (d, Inr \<lparr>status = 400,
                     json = JObj [(''error'',
                              JStr ''Number of Days must be a valid number and less than 7.'')]\<rparr>))"
proof -
  have "snd (fst (post_schedule (traced execute) (d, trail) b)) =
           trail @ [(INSERT_ROW, insert_params b)]"
    by (simp add: post_traced split: prod.splits)
  moreover have "insert_params b ! 4 = field b ''VENDOR_ID''"
    by (simp add: insert_params_eq)
  moreover have "put_schedule execute d ident b =
               (d, Inr \<lparr>status = 400,
                     json = JObj [(''error'',
                              JStr ''Number of Days must be a valid number and less than 7.'')]\<rparr>)"
    if "7 \<le> q" "field b ''NUMBER_OF_DAYS'' = JNum (Fin q)" for q
    using that days_invalid_reject [of "JNum (Fin q)"] by (simp add: put_schedule_def)
  moreover have "insert_params b ! 2 = JNum (Fin q)"
    if "7 \<le> q" "field b ''NUMBER_OF_DAYS'' = JNum (Fin q)" for q
    using that by (auto simp: insert_params_eq js_or_def)
  moreover have "snd (post_schedule (table_execute sch n) t b) =
                 Inr \<lparr>status = 201,
                       json = JObj [(''message'', JStr ''Schedule added successfully!''),
                                    (''id'', JNum (Fin (of_nat (next_id t))))]\<rparr>
               \<and> NUMBER_OF_DAYS (last (rows (fst (post_schedule (table_execute sch n) t b)))) =
                   JNum (Fin q)"
    if "7 \<le> q" "field b ''NUMBER_OF_DAYS'' = JNum (Fin q)"
       "refuses sch n (rows t) INSERT_ROW (insert_params b) = None" for q
    using that by (auto simp: post_table js_or_def)
  ultimately show ?thesis
    using post_status [of execute d b] by blast
qed


text \<open>A create with 7 days on the stored example.\<close>

theorem create_does_not_validate_witness:
  "(7::rat) \<le> 7
   \<and> field ((''NUMBER_OF_DAYS'', JNum (Fin 7)) # base_body) ''NUMBER_OF_DAYS'' = JNum (Fin 7)
   \<and> refuses plain_schema 0 (rows sample_db) INSERT_ROW
        (insert_params ((''NUMBER_OF_DAYS'', JNum (Fin 7)) # base_body)) = None
   \<and> snd (post_schedule (table_execute plain_schema 0) sample_db
            ((''NUMBER_OF_DAYS'', JNum (Fin 7)) # base_body)) =
        Inr \<lparr>status = 201,
              json = JObj [(''message'', JStr ''Schedule added successfully!''),
                           (''id'', JNum (Fin 2))]\<rparr>
   \<and> NUMBER_OF_DAYS (last (rows (fst (post_schedule (table_execute plain_schema 0) sample_db
            ((''NUMBER_OF_DAYS'', JNum (Fin 7)) # base_body))))) = JNum (Fin 7)
   \<and> put_schedule (table_execute plain_schema 0) sample_db ''1''
        ((''NUMBER_OF_DAYS'', JNum (Fin 7)) # base_body) =
       (sample_db, Inr \<lparr>status = 400,
                     json = JObj [(''error'',
                              JStr ''Number of Days must be a valid number and less than 7.'')]\<rparr>)"
proof -
  have days: "field ((''NUMBER_OF_DAYS'', JNum (Fin 7)) # base_body) ''NUMBER_OF_DAYS'' = JNum (Fin 7)"
    by (simp add: field_def)
  show ?thesis
    using create_does_not_validate [where execute = "table_execute plain_schema 0" and d = sample_db
        and trail = "[]" and b = "(''NUMBER_OF_DAYS'', JNum (Fin 7)) # base_body"
        and sch = plain_schema and t = sample_db and ident = "''1''" and n = 0]
    by (simp add: days sample_db_def)
qed

section \<open>Creating: falsy values and absent fields\<close>

text \<open>
  Claim C8. When \<^verbatim>\<open>NUMBER_OF_DAYS\<close> or \<^verbatim>\<open>STATUS\<close> of a create request is the number 0, the
  empty string or \<^verbatim>\<open>false\<close>, or any other value that \<^verbatim>\<open>||\<close> takes for false, the value
  bound for that field is null and, unless the store refuses the statement, the new row
  holds null in that field.
\<close>

theorem create_nulls_falsy_fields:
  assumes "v \<in> {JNum (Fin 0), JStr [], JBool False} \<or> \<not> ToBoolean v"
  shows "(field b ''NUMBER_OF_DAYS'' = v \<longrightarrow>
            insert_params b ! 2 = JNull
            \<and> (refuses sch n (rows t) INSERT_ROW (insert_params b) = None \<longrightarrow>
                 NUMBER_OF_DAYS (last (rows (fst (post_schedule (table_execute sch n) t b)))) = JNull))
       \<and> (field b ''STATUS'' = v \<longrightarrow>
            insert_params b ! 3 = JNull
            \<and> (refuses sch n (rows t) INSERT_ROW (insert_params b) = None \<longrightarrow>
                 STATUS (last (rows (fst (post_schedule (table_execute sch n) t b)))) = JNull))"
proof -
  have falsy: "\<not> ToBoolean v"
    using assms by auto
  show ?thesis
    using falsy by (auto simp: insert_params_eq js_or_def post_table)
qed


text \<open>A create with 0 days on the stored example: the new row holds null, not 0.\<close>

theorem create_nulls_falsy_fields_witness:
  "JNum (Fin 0) \<in> {JNum (Fin 0), JStr [], JBool False}
   \<and> field ((''NUMBER_OF_DAYS'', JNum (Fin 0)) # base_body) ''NUMBER_OF_DAYS'' = JNum (Fin 0)
   \<and> refuses plain_schema 0 (rows sample_db) INSERT_ROW
        (insert_params ((''NUMBER_OF_DAYS'', JNum (Fin 0)) # base_body)) = None
   \<and> insert_params ((''NUMBER_OF_DAYS'', JNum (Fin 0)) # base_body) ! 2 = JNull
   \<and> NUMBER_OF_DAYS (last (rows (fst (post_schedule (table_execute plain_schema 0) sample_db
         ((''NUMBER_OF_DAYS'', JNum (Fin 0)) # base_body))))) = JNull"
proof -
  have days: "field ((''NUMBER_OF_DAYS'', JNum (Fin 0)) # base_body) ''NUMBER_OF_DAYS'' = JNum (Fin 0)"
    by (simp add: field_def)
  show ?thesis
    using create_nulls_falsy_fields [where v = "JNum (Fin 0)"
        and b = "(''NUMBER_OF_DAYS'', JNum (Fin 0)) # base_body" and sch = plain_schema
        and t = sample_db and n = 0]
    by (simp add: days)
qed

text \<open>
  Claim C10. When a create request lacks \<^verbatim>\<open>SCHEDULER_TYPE\<close>, \<^verbatim>\<open>SCHEDULER_DETAILS\<close> or
  \<^verbatim>\<open>VENDOR_ID\<close>, the answer is 201 or 500 and never a 400; the INSERT is issued with
  \<^verbatim>\<open>undefined\<close> bound in that field's position; and when the executor rejects the
  statement, the answer is 500 with a body that ends in the error's message.
\<close>

theorem create_missing_required_field:
  fixes execute :: "'db executor"
  assumes "required_position k = Some i"
    and "field b k = JUndefined"
  shows "(\<exists>r. snd (post_schedule execute d b) = Inr r \<and> (status r = 201 \<or> status r = 500))
    \<and> insert_params b ! i = JUndefined
    \<and> snd (fst (post_schedule (traced execute) (d, trail) b)) =
        trail @ [(INSERT_ROW, insert_params b)]
    \<and> (\<forall>err d'. execute d INSERT_ROW (insert_params b) = (Inl err, d') \<longrightarrow>
          post_schedule execute d b =
            (d', Inr \<lparr>status = 500,
                      json = JObj [(''error'', JStr (''Error adding schedule: '' @ message err))]\<rparr>))"
proof -
  have "insert_params b ! i = JUndefined"
    using assms by (auto simp: required_position_def insert_params_eq split: if_splits)
  moreover have "snd (fst (post_schedule (traced execute) (d, trail) b)) =
        trail @ [(INSERT_ROW, insert_params b)]"
    by (simp add: post_traced split: prod.splits)
  ultimately show ?thesis
    using post_status [of execute d b] post_rejected [of execute d b] by blast
qed


text \<open>
  A create without vendor against the store that refuses \<^verbatim>\<open>undefined\<close>: the driver's
  message comes back in a 500 and the table is as it was.
\<close>

theorem create_missing_required_field_witness:
  "required_position ''VENDOR_ID'' = Some 4
   \<and> field [(''SCHEDULER_TYPE'', JStr ''daily''), (''SCHEDULER_DETAILS'', JStr ''d'')] ''VENDOR_ID''
       = JUndefined
   \<and> table_execute plain_schema 0 sample_db INSERT_ROW
        (insert_params [(''SCHEDULER_TYPE'', JStr ''daily''), (''SCHEDULER_DETAILS'', JStr ''d'')]) =
       (Inl (Error ''Bind parameters must not contain undefined. To pass SQL NULL specify JS null''),
        sample_db)
   \<and> post_schedule (table_execute plain_schema 0) sample_db
        [(''SCHEDULER_TYPE'', JStr ''daily''), (''SCHEDULER_DETAILS'', JStr ''d'')] =
       (sample_db,
        Inr \<lparr>status = 500,
              json = JObj [(''error'', JStr (''Error adding schedule: '' @
                ''Bind parameters must not contain undefined. To pass SQL NULL specify JS null''))]\<rparr>)"
proof -
  have ex: "table_execute plain_schema 0 sample_db INSERT_ROW
        (insert_params [(''SCHEDULER_TYPE'', JStr ''daily''), (''SCHEDULER_DETAILS'', JStr ''d'')]) =
       (Inl (Error ''Bind parameters must not contain undefined. To pass SQL NULL specify JS null''),
        sample_db)"
    by (simp add: table_execute_def plain_schema_def undefined_refused_def insert_params_eq field_def)
  have pos: "required_position ''VENDOR_ID'' = Some 4"
    by (simp add: required_position_def)
  have miss: "field [(''SCHEDULER_TYPE'', JStr ''daily''), (''SCHEDULER_DETAILS'', JStr ''d'')]
      ''VENDOR_ID'' = JUndefined"
    by (simp add: field_def)
  show ?thesis
    using create_missing_required_field [OF pos miss, of "table_execute plain_schema 0" sample_db "[]"]
      ex pos miss
    by simp
qed

section \<open>The handlers on the table\<close>

lemma get_table:
  assumes "refuses sch n (rows d) SELECT_ALL [] = None"
  shows "get_schedules (table_execute sch n) d =
     (d, Inr \<lparr>status = 200, json = JArr (map row_object (rows d))\<rparr>)"
  using assms by (simp add: get_schedules_def table_execute_def)

lemma get_keeps_table: "fst (get_schedules (table_execute sch n) d) = d"
  by (simp add: get_schedules_def table_execute_def split: option.splits)

lemma get_traced:
  fixes execute :: "'db executor"
  shows "snd (fst (get_schedules (traced execute) (d, trail))) = trail @ [(SELECT_ALL, [])]"
  by (simp add: get_schedules_def traced_def split: prod.splits sum.splits)

lemma filter_no_hit:
  assumes "\<forall>r \<in> set rs. \<not> hit sch k r"
  shows "filter (hit sch k) rs = []" "filter (\<lambda>r. \<not> hit sch k r) rs = rs"
  using assms by (simp_all add: filter_empty_conv)

lemma map_no_hit:
  assumes "\<forall>r \<in> set rs. \<not> hit sch k r"
  shows "map (\<lambda>r. if hit sch k r then f r else r) rs = rs"
  using assms by (simp add: map_idI)

lemma delete_table:
  assumes "refuses sch n (rows d) DELETE_ROW [JStr ident] = None"
  shows "delete_schedule (table_execute sch n) d ident =
     (d\<lparr>rows := filter (\<lambda>r. \<not> hit sch (JStr ident) r) (rows d)\<rparr>,
      Inr (if \<forall>r \<in> set (rows d). \<not> hit sch (JStr ident) r
           then \<lparr>status = 404, json = JObj [(''error'', JStr ''Schedule not found'')]\<rparr>
           else \<lparr>status = 200, json = JObj [(''message'', JStr ''Schedule deleted successfully!'')]\<rparr>))"
  using assms by (auto simp: delete_schedule_def table_execute_def filter_empty_conv)

lemma delete_refused:
  assumes "refuses sch n (rows d) DELETE_ROW [JStr ident] = Some m"
  shows "delete_schedule (table_execute sch n) d ident =
     (d, Inr \<lparr>status = 500, json = JObj [(''error'', JStr (''Error deleting schedule: '' @ m))]\<rparr>)"
  using assms by (simp add: delete_schedule_def table_execute_def)

lemma put_table:
  assumes "days_invalid (field b ''NUMBER_OF_DAYS'') = Inr False"
    and "refuses sch n (rows d) UPDATE_DAYS [field b ''NUMBER_OF_DAYS'', JStr ident] = None"
  shows "put_schedule (table_execute sch n) d ident b =
     (d\<lparr>rows := map (\<lambda>r. if hit sch (JStr ident) r
                          then r\<lparr>NUMBER_OF_DAYS := field b ''NUMBER_OF_DAYS''\<rparr> else r) (rows d)\<rparr>,
      Inr (if \<forall>r \<in> set (rows d). \<not> hit sch (JStr ident) r
           then \<lparr>status = 404, json = JObj [(''error'', JStr ''Schedule not found'')]\<rparr>
           else \<lparr>status = 200, json = JObj [(''message'', JStr ''Schedule updated successfully!'')]\<rparr>))"
  using assms by (auto simp: put_schedule_def table_execute_def filter_empty_conv Let_def)

lemma put_refused:
  assumes "days_invalid (field b ''NUMBER_OF_DAYS'') = Inr False"
    and "refuses sch n (rows d) UPDATE_DAYS [field b ''NUMBER_OF_DAYS'', JStr ident] = Some m"
  shows "put_schedule (table_execute sch n) d ident b =
     (d, Inr \<lparr>status = 500, json = JObj [(''error'', JStr (''Error updating schedule: '' @ m))]\<rparr>)"
  using assms by (simp add: put_schedule_def table_execute_def js_or_def Let_def)

lemma put_not_issued:
  fixes execute :: "'db executor"
  assumes "days_invalid (field b ''NUMBER_OF_DAYS'') \<noteq> Inr False"
  shows "fst (put_schedule execute d ident b) = d"
  using assms by (auto simp: put_schedule_def Let_def split: sum.splits bool.splits)


lemma post_refused:
  assumes "refuses sch n (rows d) INSERT_ROW (insert_params b) = Some m"
  shows "post_schedule (table_execute sch n) d b =
     (d, Inr \<lparr>status = 500, json = JObj [(''error'', JStr (''Error adding schedule: '' @ m))]\<rparr>)"
  using assms by (simp add: post_schedule_def table_execute_def)


lemma digits_key_9: "digits_key (JStr ''9'') = Some 9"
  by (simp add: digits_key_def digit_value_def)

subsection \<open>Listing\<close>

lemma post_ledger:
  assumes "post_schedule (table_execute sch n) d b = (d', r)"
  shows "\<exists>x. r = Inr x \<and> rows d' = (if status x = 201 then rows d @ [created_record x b] else rows d)"
proof (cases "refuses sch n (rows d) INSERT_ROW (insert_params b)")
  case None
  then show ?thesis
    using assms by (auto simp: post_table created_record_def js_or_def field_def)
next
  case (Some m)
  then have "d' = d"
    "r = Inr \<lparr>status = 500, json = JObj [(''error'', JStr (''Error adding schedule: '' @ m))]\<rparr>"
    using assms by (simp_all add: post_refused)
  then show ?thesis by simp
qed

lemma delete_ledger:
  assumes "delete_schedule (table_execute sch n) d ident = (d', r)"
  shows "\<exists>x. r = Inr x \<and>
     rows d' = (if status x = 200 then filter (\<lambda>y. \<not> hit sch (JStr ident) y) (rows d) else rows d)"
proof (cases "refuses sch n (rows d) DELETE_ROW [JStr ident]")
  case None
  then show ?thesis
    using assms by (auto simp: delete_table filter_no_hit split: if_splits)
next
  case (Some m)
  then have "d' = d"
    "r = Inr \<lparr>status = 500, json = JObj [(''error'', JStr (''Error deleting schedule: '' @ m))]\<rparr>"
    using assms by (simp_all add: delete_refused)
  then show ?thesis by simp
qed

lemma serve_all_ledger:
  assumes "\<forall>q \<in> set qs. create_or_delete q"
    and "serve_all (table_execute sch) n d qs = (d', rs)"
  shows "rows d' = created_not_deleted sch (rows d) (zip qs rs)"
  using assms
proof (induction qs arbitrary: d rs d' n)
  case Nil
  then show ?case by simp
next
  case (Cons q qs)
  obtain d1 r where step: "serve (table_execute sch n) d q = (d1, r)"
    by (cases "serve (table_execute sch n) d q")
  obtain d2 rs' where rest: "serve_all (table_execute sch) (Suc n) d1 qs = (d2, rs')"
    by (cases "serve_all (table_execute sch) (Suc n) d1 qs")
  have out: "d' = d2" "rs = r # rs'"
    using Cons.prems(2) step rest by simp_all
  have ih: "rows d2 = created_not_deleted sch (rows d1) (zip qs rs')"
    using Cons.IH [OF _ rest] Cons.prems(1) by simp
  show ?case
  proof (cases q)
    case GET
    then show ?thesis using Cons.prems(1) by simp
  next
    case (POST b)
    then obtain x where "r = Inr x"
      "rows d1 = (if status x = 201 then rows d @ [created_record x b] else rows d)"
      using step post_ledger by fastforce
    then show ?thesis using POST out ih by simp
  next
    case (PUT ident b)
    then show ?thesis using Cons.prems(1) by simp
  next
    case (DELETE ident)
    then obtain x where "r = Inr x"
      "rows d1 = (if status x = 200 then filter (\<lambda>y. \<not> hit sch (JStr ident) y) (rows d) else rows d)"
      using step delete_ledger by fastforce
    then show ?thesis using DELETE out ih by simp
  qed
qed


text \<open>
  Claim C3. After any sequence of create and delete requests served on the table, a
  list request that the store does not refuse is answered 200 with the rows, in their
  stored order, that make up the records created and not yet deleted as the client knows
  them from the replies (together with those the table held at the start, none for an
  empty table). The list request returns every table as it was, and with any executor
  the one statement it issues is the SELECT.
\<close>

theorem listing_shows_created_not_deleted:
  fixes execute :: "'e executor"
  assumes "\<forall>q \<in> set qs. create_or_delete q"
    and "serve_all (table_execute sch) n d qs = (d', rs)"
    and "refuses sch m (rows d') SELECT_ALL [] = None"
  shows "get_schedules (table_execute sch m) d' =
           (d', Inr \<lparr>status = 200,
                      json = JArr (map row_object (created_not_deleted sch (rows d) (zip qs rs)))\<rparr>)
         \<and> (\<forall>k x. fst (get_schedules (table_execute sch k) x) = x)
         \<and> snd (fst (get_schedules (traced execute) (e, trail))) = trail @ [(SELECT_ALL, [])]"
  using serve_all_ledger [OF assms(1,2)] get_table [OF assms(3)] get_keeps_table get_traced
  by simp

text \<open>
  The stored example, then a create and a delete of record 1: the listing shows record 2
  alone.
\<close>

theorem listing_shows_created_not_deleted_witness:
  "create_or_delete (POST base_body) \<and> create_or_delete (DELETE ''1'')
   \<and> serve_all (table_execute plain_schema) 0 sample_db [POST base_body, DELETE ''1''] =
       (\<lparr>rows = [\<lparr>USER_SCHD_ID = 2, SCHEDULER_TYPE = JStr ''daily'',
                   SCHEDULER_DETAILS = JStr ''d'', NUMBER_OF_DAYS = JNull, STATUS = JNull,
                   VENDOR_ID = JStr ''V1'', INSERT_ID = JNum (Fin 1)\<rparr>],
          next_id = 3\<rparr>,
        [Inr \<lparr>status = 201,
               json = JObj [(''message'', JStr ''Schedule added successfully!''),
                            (''id'', JNum (Fin 2))]\<rparr>,
         Inr \<lparr>status = 200,
               json = JObj [(''message'', JStr ''Schedule deleted successfully!'')]\<rparr>])
   \<and> get_schedules (table_execute plain_schema 2)
         \<lparr>rows = [\<lparr>USER_SCHD_ID = 2, SCHEDULER_TYPE = JStr ''daily'',
                   SCHEDULER_DETAILS = JStr ''d'', NUMBER_OF_DAYS = JNull, STATUS = JNull,
                   VENDOR_ID = JStr ''V1'', INSERT_ID = JNum (Fin 1)\<rparr>],
          next_id = 3\<rparr> =
       (\<lparr>rows = [\<lparr>USER_SCHD_ID = 2, SCHEDULER_TYPE = JStr ''daily'',
                   SCHEDULER_DETAILS = JStr ''d'', NUMBER_OF_DAYS = JNull, STATUS = JNull,
                   VENDOR_ID = JStr ''V1'', INSERT_ID = JNum (Fin 1)\<rparr>],
          next_id = 3\<rparr>,
        Inr \<lparr>status = 200,
              json = JArr [row_object
                 \<lparr>USER_SCHD_ID = 2, SCHEDULER_TYPE = JStr ''daily'',
                   SCHEDULER_DETAILS = JStr ''d'', NUMBER_OF_DAYS = JNull, STATUS = JNull,
                   VENDOR_ID = JStr ''V1'', INSERT_ID = JNum (Fin 1)\<rparr>]\<rparr>)"
proof -
  have only: "\<forall>q \<in> set [POST base_body, DELETE ''1'']. create_or_delete q"
    by simp
  have run: "serve_all (table_execute plain_schema) 0 sample_db [POST base_body, DELETE ''1''] =
       (\<lparr>rows = [\<lparr>USER_SCHD_ID = 2, SCHEDULER_TYPE = JStr ''daily'',
                   SCHEDULER_DETAILS = JStr ''d'', NUMBER_OF_DAYS = JNull, STATUS = JNull,
                   VENDOR_ID = JStr ''V1'', INSERT_ID = JNum (Fin 1)\<rparr>],
          next_id = 3\<rparr>,
        [Inr \<lparr>status = 201,
               json = JObj [(''message'', JStr ''Schedule added successfully!''),
                            (''id'', JNum (Fin 2))]\<rparr>,
         Inr \<lparr>status = 200,
               json = JObj [(''message'', JStr ''Schedule deleted successfully!'')]\<rparr>])"
    by (simp add: post_schedule_def delete_schedule_def insert_params_eq base_body_def js_or_def
        concrete_defs digits_key_1)
  have reach: "refuses plain_schema n rs SELECT_ALL [] = None" for rs n
    by (simp add: plain_schema_def undefined_refused_def)
  have first: "hit plain_schema (JStr ''1'') r \<longleftrightarrow> USER_SCHD_ID r = 1" for r
    by (auto simp: hit_def plain_schema_def digits_key_1)
  have "get_schedules (table_execute plain_schema 2)
         \<lparr>rows = [\<lparr>USER_SCHD_ID = 2, SCHEDULER_TYPE = JStr ''daily'',
                   SCHEDULER_DETAILS = JStr ''d'', NUMBER_OF_DAYS = JNull, STATUS = JNull,
                   VENDOR_ID = JStr ''V1'', INSERT_ID = JNum (Fin 1)\<rparr>],
          next_id = 3\<rparr> =
       (\<lparr>rows = [\<lparr>USER_SCHD_ID = 2, SCHEDULER_TYPE = JStr ''daily'',
                   SCHEDULER_DETAILS = JStr ''d'', NUMBER_OF_DAYS = JNull, STATUS = JNull,
                   VENDOR_ID = JStr ''V1'', INSERT_ID = JNum (Fin 1)\<rparr>],
          next_id = 3\<rparr>,
        Inr \<lparr>status = 200,
              json = JArr [row_object
                 \<lparr>USER_SCHD_ID = 2, SCHEDULER_TYPE = JStr ''daily'',
                   SCHEDULER_DETAILS = JStr ''d'', NUMBER_OF_DAYS = JNull, STATUS = JNull,
                   VENDOR_ID = JStr ''V1'', INSERT_ID = JNum (Fin 1)\<rparr>]\<rparr>)"
    using listing_shows_created_not_deleted [OF only run reach [of 2],
        where execute = "table_execute plain_schema 0" and e = sample_db and trail = "[]"]
    by (simp add: created_record_def field_def base_body_def sample_db_def sample_row_def first)
  then show ?thesis
    using run by simp
qed

subsection \<open>What stays in the table\<close>

lemma hit_days [simp]: "hit sch k (r\<lparr>NUMBER_OF_DAYS := v\<rparr>) = hit sch k r"
  by (simp add: hit_def)

lemma serve_table_rows:
  assumes "serve (table_execute sch n) d q = (d', r)"
  shows "next_id d \<le> next_id d'
    \<and> (\<forall>x \<in> set (rows d'). USER_SCHD_ID x \<in> USER_SCHD_ID ` set (rows d) \<or>
          (USER_SCHD_ID x = next_id d \<and> next_id d < next_id d'))"
proof (cases q)
  case GET
  then show ?thesis
    using assms get_keeps_table [of sch n d] by auto
next
  case (POST b)
  show ?thesis
  proof (cases "refuses sch n (rows d) INSERT_ROW (insert_params b)")
    case None
    then show ?thesis using assms POST by (auto simp: post_table)
  next
    case (Some m)
    then show ?thesis using assms POST by (auto simp: post_refused)
  qed
next
  case (PUT ident b)
  show ?thesis
  proof (cases "days_invalid (field b ''NUMBER_OF_DAYS'') = Inr False")
    case True
    show ?thesis
    proof (cases "refuses sch n (rows d) UPDATE_DAYS [field b ''NUMBER_OF_DAYS'', JStr ident]")
      case None
      then show ?thesis using assms PUT True by (auto simp: put_table)
    next
      case (Some m)
      then show ?thesis using assms PUT True by (auto simp: put_refused)
    qed
  next
    case False
    then show ?thesis
      using assms PUT put_not_issued [of b "table_execute sch n" d ident] by auto
  qed
next
  case (DELETE ident)
  show ?thesis
  proof (cases "refuses sch n (rows d) DELETE_ROW [JStr ident]")
    case None
    then show ?thesis using assms DELETE by (auto simp: delete_table)
  next
    case (Some m)
    then show ?thesis using assms DELETE by (auto simp: delete_refused)
  qed
qed

lemma retired_serve:
  assumes "retired sch k d" and "serve (table_execute sch n) d q = (d', r)"
  shows "retired sch k d'"
  using assms(1) serve_table_rows [OF assms(2)]
  unfolding retired_def hit_def by (fastforce simp: image_iff)

lemma retired_serve_all:
  assumes "retired sch k d" and "serve_all (table_execute sch) n d qs = (d', rs)"
  shows "retired sch k d'"
  using assms
proof (induction qs arbitrary: d rs d' n)
  case Nil
  then show ?case by simp
next
  case (Cons q qs)
  obtain d1 r where step: "serve (table_execute sch n) d q = (d1, r)"
    by (cases "serve (table_execute sch n) d q")
  obtain d2 rs' where rest: "serve_all (table_execute sch) (Suc n) d1 qs = (d2, rs')"
    by (cases "serve_all (table_execute sch) (Suc n) d1 qs")
  have "d' = d2"
    using Cons.prems(2) step rest by simp
  then show ?case
    using Cons.IH [OF retired_serve [OF Cons.prems(1) step] rest] by simp
qed

lemma retired_after_delete:
  assumes "assigned d"
  shows "retired sch k (d\<lparr>rows := filter (\<lambda>r. \<not> hit sch k r) (rows d)\<rparr>) \<or>
         (\<forall>r \<in> set (rows d). \<not> hit sch k r)"
  using assms unfolding retired_def assigned_def hit_def by auto


lemma assigned_serve:
  assumes "assigned d" and "serve (table_execute sch n) d q = (d', r)"
  shows "assigned d'"
proof (cases q)
  case GET
  then show ?thesis
    using assms get_keeps_table [of sch n d] by auto
next
  case (POST b)
  show ?thesis
  proof (cases "refuses sch n (rows d) INSERT_ROW (insert_params b)")
    case None
    have fresh: "next_id d \<notin> USER_SCHD_ID ` set (rows d)"
      using assms(1) by (auto simp: assigned_def)
    obtain x where d': "rows d' = rows d @ [x]" "USER_SCHD_ID x = next_id d"
      "next_id d' = Suc (next_id d)"
      using assms(2) POST None by (auto simp: post_table)
    have "\<forall>r \<in> set (rows d). USER_SCHD_ID r < Suc (next_id d)"
      using assms(1) by (simp add: assigned_def less_SucI)
    then show ?thesis
      using fresh assms(1) by (simp add: assigned_def d')
  next
    case (Some m)
    then show ?thesis using assms POST by (auto simp: post_refused)
  qed
next
  case (PUT ident b)
  show ?thesis
  proof (cases "days_invalid (field b ''NUMBER_OF_DAYS'') = Inr False")
    case True
    show ?thesis
    proof (cases "refuses sch n (rows d) UPDATE_DAYS [field b ''NUMBER_OF_DAYS'', JStr ident]")
      case None
      have "USER_SCHD_ID \<circ> (\<lambda>r. if hit sch (JStr ident) r
                          then r\<lparr>NUMBER_OF_DAYS := field b ''NUMBER_OF_DAYS''\<rparr> else r)
            = USER_SCHD_ID"
        by (auto simp: fun_eq_iff)
      then show ?thesis using assms PUT True None by (auto simp: put_table assigned_def)
    next
      case (Some m)
      then show ?thesis using assms PUT True by (auto simp: put_refused)
    qed
  next
    case False
    then show ?thesis
      using assms PUT put_not_issued [of b "table_execute sch n" d ident] by auto
  qed
next
  case (DELETE ident)
  show ?thesis
  proof (cases "refuses sch n (rows d) DELETE_ROW [JStr ident]")
    case None
    then show ?thesis using assms DELETE by (auto simp: delete_table assigned_def distinct_map_filter)
  next
    case (Some m)
    then show ?thesis using assms DELETE by (auto simp: delete_refused)
  qed
qed

lemma assigned_serve_all:
  assumes "assigned d" and "serve_all (table_execute sch) n d qs = (d', rs)"
  shows "assigned d'"
  using assms
proof (induction qs arbitrary: d rs d' n)
  case Nil
  then show ?case by simp
next
  case (Cons q qs)
  obtain d1 r where step: "serve (table_execute sch n) d q = (d1, r)"
    by (cases "serve (table_execute sch n) d q")
  obtain d2 rs' where rest: "serve_all (table_execute sch) (Suc n) d1 qs = (d2, rs')"
    by (cases "serve_all (table_execute sch) (Suc n) d1 qs")
  have "d' = d2"
    using Cons.prems(2) step rest by simp
  then show ?case
    using Cons.IH [OF assigned_serve [OF Cons.prems(1) step] rest] by simp
qed

text \<open>
  Every table that grows from an empty one by serving requests has its identifiers
  assigned by the store.
\<close>

lemma assigned_from_empty:
  assumes "serve_all (table_execute sch) n \<lparr>rows = [], next_id = k\<rparr> qs = (d', rs)"
  shows "assigned d'"
  using assigned_serve_all [OF _ assms] by (simp add: assigned_def)

lemma one_hit:
  assumes "distinct (map USER_SCHD_ID rs)" and "\<exists>r \<in> set rs. hit sch k r"
  shows "length (filter (hit sch k) rs) = 1"
  using assms
proof (induction rs)
  case Nil
  then show ?case by simp
next
  case (Cons a rs)
  show ?case
  proof (cases "hit sch k a")
    case True
    then have "\<forall>r \<in> set rs. \<not> hit sch k r"
      using Cons.prems(1) by (auto simp: hit_def image_iff)
    then show ?thesis using True by (simp add: filter_no_hit)
  next
    case False
    then show ?thesis using Cons by auto
  qed
qed

lemma put_ok_cases:
  assumes "put_schedule (table_execute sch n) d ident b = (d', Inr r)" and "status r = 200"
  shows "days_invalid (field b ''NUMBER_OF_DAYS'') = Inr False
    \<and> refuses sch n (rows d) UPDATE_DAYS [field b ''NUMBER_OF_DAYS'', JStr ident] = None
    \<and> (\<exists>x \<in> set (rows d). hit sch (JStr ident) x)"
proof -
  have v: "days_invalid (field b ''NUMBER_OF_DAYS'') = Inr False"
    using assms by (auto simp: put_schedule_def Let_def split: sum.splits bool.splits)
  have "refuses sch n (rows d) UPDATE_DAYS [field b ''NUMBER_OF_DAYS'', JStr ident] = None"
  proof (cases "refuses sch n (rows d) UPDATE_DAYS [field b ''NUMBER_OF_DAYS'', JStr ident]")
    case None
    then show ?thesis .
  next
    case (Some m)
    then show ?thesis using assms put_refused [OF v Some] by auto
  qed
  then show ?thesis
    using v assms by (auto simp: put_table split: if_splits)
qed


text \<open>
  Claim C5. When an update of the table is answered 200, the counter and the number and
  order of the rows are as before; every row that the identifier denotes is the old row
  with only \<^verbatim>\<open>NUMBER_OF_DAYS\<close> replaced by the value sent, and every other row is the old
  row; when the identifiers were assigned by the store, exactly one row is denoted. The
  body's other members play no part: the body reduced to \<^verbatim>\<open>NUMBER_OF_DAYS\<close> gives the
  same table and the same answer.
\<close>

theorem update_changes_days_of_one_record:
  assumes "put_schedule (table_execute sch n) d ident b = (d', Inr r)" and "status r = 200"
  shows "next_id d' = next_id d \<and> length (rows d') = length (rows d)
    \<and> (\<forall>i < length (rows d).
          (hit sch (JStr ident) (rows d ! i) \<longrightarrow>
             rows d' ! i = (rows d ! i)\<lparr>NUMBER_OF_DAYS := field b ''NUMBER_OF_DAYS''\<rparr>)
        \<and> (\<not> hit sch (JStr ident) (rows d ! i) \<longrightarrow> rows d' ! i = rows d ! i))
    \<and> (assigned d \<longrightarrow> length (filter (hit sch (JStr ident)) (rows d)) = 1)
    \<and> put_schedule (table_execute sch n) d ident [(''NUMBER_OF_DAYS'', field b ''NUMBER_OF_DAYS'')] =
        (d', Inr r)"
proof -
  note ok = put_ok_cases [OF assms]
  have same: "field [(''NUMBER_OF_DAYS'', field b ''NUMBER_OF_DAYS'')] ''NUMBER_OF_DAYS'' =
      field b ''NUMBER_OF_DAYS''"
    by (simp add: field_def)
  have d': "d' = d\<lparr>rows := map (\<lambda>r. if hit sch (JStr ident) r
                          then r\<lparr>NUMBER_OF_DAYS := field b ''NUMBER_OF_DAYS''\<rparr> else r) (rows d)\<rparr>"
    using assms(1) ok by (simp add: put_table)
  have "put_schedule (table_execute sch n) d ident [(''NUMBER_OF_DAYS'', field b ''NUMBER_OF_DAYS'')] =
        put_schedule (table_execute sch n) d ident b"
    using ok by (simp add: put_table same)
  moreover have "assigned d \<longrightarrow> length (filter (hit sch (JStr ident)) (rows d)) = 1"
    using ok one_hit by (auto simp: assigned_def)
  ultimately show ?thesis
    using d' assms(1) by simp
qed


text \<open>
  The stored example updated to 5 days, with a status in the body that is ignored.
\<close>

theorem update_changes_days_of_one_record_witness:
  "put_schedule (table_execute plain_schema 0) sample_db ''1''
       [(''NUMBER_OF_DAYS'', JNum (Fin 5)), (''STATUS'', JStr ''paused'')] =
     (sample_db\<lparr>rows := [sample_row\<lparr>NUMBER_OF_DAYS := JNum (Fin 5)\<rparr>]\<rparr>,
      Inr \<lparr>status = 200, json = JObj [(''message'', JStr ''Schedule updated successfully!'')]\<rparr>)
   \<and> assigned sample_db
   \<and> length (filter (hit plain_schema (JStr ''1'')) (rows sample_db)) = 1
   \<and> put_schedule (table_execute plain_schema 0) sample_db ''1'' [(''NUMBER_OF_DAYS'', JNum (Fin 5))] =
     (sample_db\<lparr>rows := [sample_row\<lparr>NUMBER_OF_DAYS := JNum (Fin 5)\<rparr>]\<rparr>,
      Inr \<lparr>status = 200, json = JObj [(''message'', JStr ''Schedule updated successfully!'')]\<rparr>)"
proof -
  have run: "put_schedule (table_execute plain_schema 0) sample_db ''1''
       [(''NUMBER_OF_DAYS'', JNum (Fin 5)), (''STATUS'', JStr ''paused'')] =
     (sample_db\<lparr>rows := [sample_row\<lparr>NUMBER_OF_DAYS := JNum (Fin 5)\<rparr>]\<rparr>,
      Inr \<lparr>status = 200, json = JObj [(''message'', JStr ''Schedule updated successfully!'')]\<rparr>)"
    by (simp add: put_schedule_def days_invalid_def isNaN_def js_ge_def concrete_defs digits_key_1)
  have ok: "status \<lparr>status = 200,
      json = JObj [(''message'', JStr ''Schedule updated successfully!'')]\<rparr> = 200"
    by simp
  have assigned: "assigned sample_db"
    by (simp add: assigned_def sample_db_def sample_row_def)
  show ?thesis
    using update_changes_days_of_one_record [OF run ok] run assigned
    by (simp add: field_def)
qed

text \<open>
  Claim C6. An update that passes the validation is answered 404, with the table as it
  was, when the store does not refuse the statement and no row has the identifier. It
  is answered 500 when the store refuses the statement, and an update that fails the
  validation is answered 400 (claim C1): the three answers differ. With any executor
  the answer is 404 whenever the statement is fulfilled with a header that counts no
  affected row.
\<close>

theorem update_of_unknown_identifier:
  fixes execute :: "'db executor"
  assumes "days_invalid (field b ''NUMBER_OF_DAYS'') = Inr False"
  shows "(refuses sch n (rows d) UPDATE_DAYS [field b ''NUMBER_OF_DAYS'', JStr ident] = None
          \<and> (\<forall>r \<in> set (rows d). \<not> hit sch (JStr ident) r) \<longrightarrow>
            put_schedule (table_execute sch n) d ident b =
              (d, Inr \<lparr>status = 404, json = JObj [(''error'', JStr ''Schedule not found'')]\<rparr>))
    \<and> (\<forall>m. refuses sch n (rows d) UPDATE_DAYS [field b ''NUMBER_OF_DAYS'', JStr ident] = Some m \<longrightarrow>
            put_schedule (table_execute sch n) d ident b =
              (d, Inr \<lparr>status = 500,
                        json = JObj [(''error'', JStr (''Error updating schedule: '' @ m))]\<rparr>))
    \<and> (\<forall>i t'. execute t UPDATE_DAYS [field b ''NUMBER_OF_DAYS'', JStr ident] = (Inr (Header i 0), t') \<longrightarrow>
            put_schedule execute t ident b =
              (t', Inr \<lparr>status = 404, json = JObj [(''error'', JStr ''Schedule not found'')]\<rparr>))"
proof -
  have "put_schedule (table_execute sch n) d ident b =
              (d, Inr \<lparr>status = 404, json = JObj [(''error'', JStr ''Schedule not found'')]\<rparr>)"
    if "refuses sch n (rows d) UPDATE_DAYS [field b ''NUMBER_OF_DAYS'', JStr ident] = None"
      "\<forall>r \<in> set (rows d). \<not> hit sch (JStr ident) r"
    using that assms by (simp add: put_table map_no_hit)
  moreover have "put_schedule execute t ident b =
              (t', Inr \<lparr>status = 404, json = JObj [(''error'', JStr ''Schedule not found'')]\<rparr>)"
    if "execute t UPDATE_DAYS [field b ''NUMBER_OF_DAYS'', JStr ident] = (Inr (Header i 0), t')"
    for i t'
    using that assms by (simp add: put_schedule_def)
  moreover have "put_schedule (table_execute sch n) d ident b =
              (d, Inr \<lparr>status = 500,
                        json = JObj [(''error'', JStr (''Error updating schedule: '' @ m))]\<rparr>)"
    if "refuses sch n (rows d) UPDATE_DAYS [field b ''NUMBER_OF_DAYS'', JStr ident] = Some m" for m
    using put_refused [OF assms that] .
  ultimately show ?thesis
    by (intro conjI impI allI) simp_all
qed


text \<open>An update of record 9, which the stored example does not hold.\<close>

theorem update_of_unknown_identifier_witness:
  "days_invalid (field [(''NUMBER_OF_DAYS'', JNum (Fin 5))] ''NUMBER_OF_DAYS'') = Inr False
   \<and> refuses plain_schema 0 (rows sample_db) UPDATE_DAYS
        [field [(''NUMBER_OF_DAYS'', JNum (Fin 5))] ''NUMBER_OF_DAYS'', JStr ''9''] = None
   \<and> rows sample_db = [sample_row] \<and> \<not> hit plain_schema (JStr ''9'') sample_row
   \<and> put_schedule (table_execute plain_schema 0) sample_db ''9'' [(''NUMBER_OF_DAYS'', JNum (Fin 5))] =
       (sample_db, Inr \<lparr>status = 404, json = JObj [(''error'', JStr ''Schedule not found'')]\<rparr>)"
proof -
  have valid: "days_invalid (field [(''NUMBER_OF_DAYS'', JNum (Fin 5))] ''NUMBER_OF_DAYS'') = Inr False"
    by (simp add: field_def days_invalid_def isNaN_def js_ge_def)
  have reach: "refuses plain_schema 0 (rows sample_db) UPDATE_DAYS
        [field [(''NUMBER_OF_DAYS'', JNum (Fin 5))] ''NUMBER_OF_DAYS'', JStr ''9''] = None"
    by (simp add: plain_schema_def undefined_refused_def field_def)
  have none: "\<forall>r \<in> set (rows sample_db). \<not> hit plain_schema (JStr ''9'') r"
    by (simp add: sample_db_def sample_row_def hit_def plain_schema_def digits_key_9)
  show ?thesis
    using update_of_unknown_identifier [OF valid, where sch = plain_schema and d = sample_db
        and ident = "''9''" and execute = "table_execute plain_schema 0" and t = sample_db and n = 0]
      valid reach none
    by (simp add: sample_db_def)
qed

subsection \<open>Deleting\<close>

text \<open>
  Claim C7. On the table, when the store does not refuse the statement: a delete whose
  identifier no row has is answered 404 and the table is as it was; a delete whose
  identifier a row has is answered 200 and leaves the table without the rows of that
  identifier. When the identifiers were assigned by the store, after such a delete and
  any further requests whatsoever no row has that identifier, a listing is the rows of
  the table and so shows none with it, and a delete of the same identifier is answered
  404 and changes nothing. With any executor the answer is 404 whenever the statement is
  fulfilled with a header that counts no affected row.
\<close>

theorem delete_removes_for_good:
  assumes "refuses sch n (rows d) DELETE_ROW [JStr ident] = None"
  shows "((\<forall>r \<in> set (rows d). \<not> hit sch (JStr ident) r) \<longrightarrow>
            delete_schedule (table_execute sch n) d ident =
              (d, Inr \<lparr>status = 404, json = JObj [(''error'', JStr ''Schedule not found'')]\<rparr>))
    \<and> ((\<exists>r \<in> set (rows d). hit sch (JStr ident) r) \<longrightarrow>
          delete_schedule (table_execute sch n) d ident =
            (d\<lparr>rows := filter (\<lambda>r. \<not> hit sch (JStr ident) r) (rows d)\<rparr>,
             Inr \<lparr>status = 200, json = JObj [(''message'', JStr ''Schedule deleted successfully!'')]\<rparr>)
          \<and> (assigned d \<longrightarrow>
               (\<forall>qs d2 rs m.
                  serve_all (table_execute sch) (Suc n)
                    (d\<lparr>rows := filter (\<lambda>r. \<not> hit sch (JStr ident) r) (rows d)\<rparr>) qs = (d2, rs) \<longrightarrow>
                  (\<forall>r \<in> set (rows d2). \<not> hit sch (JStr ident) r)
                  \<and> (refuses sch m (rows d2) SELECT_ALL [] = None \<longrightarrow>
                       get_schedules (table_execute sch m) d2 =
                         (d2, Inr \<lparr>status = 200, json = JArr (map row_object (rows d2))\<rparr>))
                  \<and> (refuses sch m (rows d2) DELETE_ROW [JStr ident] = None \<longrightarrow>
                       delete_schedule (table_execute sch m) d2 ident =
                         (d2, Inr \<lparr>status = 404,
                                    json = JObj [(''error'', JStr ''Schedule not found'')]\<rparr>)))))
    \<and> (\<forall>execute t i t'. execute t DELETE_ROW [JStr ident] = (Inr (Header i 0), t') \<longrightarrow>
          delete_schedule execute (t :: db) ident =
            (t', Inr \<lparr>status = 404, json = JObj [(''error'', JStr ''Schedule not found'')]\<rparr>))"
proof -
  have miss: "delete_schedule (table_execute sch m) x ident =
              (x, Inr \<lparr>status = 404, json = JObj [(''error'', JStr ''Schedule not found'')]\<rparr>)"
    if "refuses sch m (rows x) DELETE_ROW [JStr ident] = None"
       "\<forall>r \<in> set (rows x). \<not> hit sch (JStr ident) r" for x m
    using that by (simp add: delete_table filter_no_hit)
  have found: "delete_schedule (table_execute sch n) d ident =
            (d\<lparr>rows := filter (\<lambda>r. \<not> hit sch (JStr ident) r) (rows d)\<rparr>,
             Inr \<lparr>status = 200, json = JObj [(''message'', JStr ''Schedule deleted successfully!'')]\<rparr>)"
    if "\<exists>r \<in> set (rows d). hit sch (JStr ident) r"
    using that assms by (auto simp: delete_table)
  have later: "\<forall>r \<in> set (rows d2). \<not> hit sch (JStr ident) r"
    if "\<exists>r \<in> set (rows d). hit sch (JStr ident) r" "assigned d"
      "serve_all (table_execute sch) (Suc n)
         (d\<lparr>rows := filter (\<lambda>r. \<not> hit sch (JStr ident) r) (rows d)\<rparr>) qs = (d2, rs)"
    for qs d2 rs
  proof -
    have "retired sch (JStr ident) (d\<lparr>rows := filter (\<lambda>r. \<not> hit sch (JStr ident) r) (rows d)\<rparr>)"
      using retired_after_delete [OF that(2), of sch "JStr ident"] that(1) by blast
    then have "retired sch (JStr ident) d2"
      using retired_serve_all that(3) by blast
    then show ?thesis by (simp add: retired_def)
  qed
  have on_table: "((\<forall>r \<in> set (rows d). \<not> hit sch (JStr ident) r) \<longrightarrow>
            delete_schedule (table_execute sch n) d ident =
              (d, Inr \<lparr>status = 404, json = JObj [(''error'', JStr ''Schedule not found'')]\<rparr>))
    \<and> ((\<exists>r \<in> set (rows d). hit sch (JStr ident) r) \<longrightarrow>
          delete_schedule (table_execute sch n) d ident =
            (d\<lparr>rows := filter (\<lambda>r. \<not> hit sch (JStr ident) r) (rows d)\<rparr>,
             Inr \<lparr>status = 200, json = JObj [(''message'', JStr ''Schedule deleted successfully!'')]\<rparr>)
          \<and> (assigned d \<longrightarrow>
               (\<forall>qs d2 rs m.
                  serve_all (table_execute sch) (Suc n)
                    (d\<lparr>rows := filter (\<lambda>r. \<not> hit sch (JStr ident) r) (rows d)\<rparr>) qs = (d2, rs) \<longrightarrow>
                  (\<forall>r \<in> set (rows d2). \<not> hit sch (JStr ident) r)
                  \<and> (refuses sch m (rows d2) SELECT_ALL [] = None \<longrightarrow>
                       get_schedules (table_execute sch m) d2 =
                         (d2, Inr \<lparr>status = 200, json = JArr (map row_object (rows d2))\<rparr>))
                  \<and> (refuses sch m (rows d2) DELETE_ROW [JStr ident] = None \<longrightarrow>
                       delete_schedule (table_execute sch m) d2 ident =
                         (d2, Inr \<lparr>status = 404,
                                    json = JObj [(''error'', JStr ''Schedule not found'')]\<rparr>)))))"
    using miss [of n d] assms found later miss get_table by blast
  have any: "\<forall>execute t i t'. execute t DELETE_ROW [JStr ident] = (Inr (Header i 0), t') \<longrightarrow>
          delete_schedule execute (t :: db) ident =
            (t', Inr \<lparr>status = 404, json = JObj [(''error'', JStr ''Schedule not found'')]\<rparr>)"
    by (simp add: delete_schedule_def)
  show ?thesis
    by (intro conjI conjunct1 [OF on_table] conjunct2 [OF on_table] any)
qed


text \<open>
  Record 1 of the stored example is deleted, another record is created, and record 1 is
  deleted again.
\<close>

theorem delete_removes_for_good_witness:
  "refuses plain_schema 0 (rows sample_db) DELETE_ROW [JStr ''1''] = None
   \<and> rows sample_db = [sample_row] \<and> hit plain_schema (JStr ''1'') sample_row
   \<and> assigned sample_db
   \<and> delete_schedule (table_execute plain_schema 0) sample_db ''1'' =
       (sample_db\<lparr>rows := []\<rparr>,
        Inr \<lparr>status = 200, json = JObj [(''message'', JStr ''Schedule deleted successfully!'')]\<rparr>)
   \<and> delete_schedule (table_execute plain_schema 2)
        (fst (serve_all (table_execute plain_schema) 1 (sample_db\<lparr>rows := []\<rparr>) [POST base_body])) ''1'' =
       (fst (serve_all (table_execute plain_schema) 1 (sample_db\<lparr>rows := []\<rparr>) [POST base_body]),
        Inr \<lparr>status = 404, json = JObj [(''error'', JStr ''Schedule not found'')]\<rparr>)"
proof -
  have reach: "refuses plain_schema n rs DELETE_ROW [JStr ''1''] = None" for rs n
    by (simp add: plain_schema_def undefined_refused_def)
  have found: "\<exists>r \<in> set (rows sample_db). hit plain_schema (JStr ''1'') r"
    by (simp add: sample_db_def sample_row_def hit_def plain_schema_def digits_key_1)
  have assigned: "assigned sample_db"
    by (simp add: assigned_def sample_db_def sample_row_def)
  have gone: "filter (\<lambda>r. \<not> hit plain_schema (JStr ''1'') r) (rows sample_db) = []"
    by (simp add: sample_db_def sample_row_def hit_def plain_schema_def digits_key_1)
  define d1 where
    "d1 = sample_db\<lparr>rows := filter (\<lambda>r. \<not> hit plain_schema (JStr ''1'') r) (rows sample_db)\<rparr>"
  have d1: "d1 = sample_db\<lparr>rows := []\<rparr>"
    by (simp add: d1_def gone)
  obtain d2 rs where run: "serve_all (table_execute plain_schema) (Suc 0) d1 [POST base_body] = (d2, rs)"
    by (cases "serve_all (table_execute plain_schema) (Suc 0) d1 [POST base_body]")
  note inst = delete_removes_for_good [OF reach [of 0 "rows sample_db"], folded d1_def]
  have del: "delete_schedule (table_execute plain_schema 0) sample_db ''1'' =
       (d1, Inr \<lparr>status = 200, json = JObj [(''message'', JStr ''Schedule deleted successfully!'')]\<rparr>)"
    using inst found by blast
  have again: "delete_schedule (table_execute plain_schema 2) d2 ''1'' =
       (d2, Inr \<lparr>status = 404, json = JObj [(''error'', JStr ''Schedule not found'')]\<rparr>)"
    using inst found assigned run reach [of 2 "rows d2"] by blast
  have after: "fst (serve_all (table_execute plain_schema) 1 (sample_db\<lparr>rows := []\<rparr>) [POST base_body]) = d2"
    by (simp only: run [unfolded d1] fst_conv One_nat_def)
  have one: "rows sample_db = [sample_row]"
    by (simp add: sample_db_def)
  have hit: "hit plain_schema (JStr ''1'') sample_row"
    by (simp add: sample_row_def hit_def plain_schema_def digits_key_1)
  show ?thesis
    unfolding after
    by (intro conjI reach one hit assigned del [unfolded d1] again)
qed

end
